theory Spec2Isabelle
  imports Main
begin

section \<open>JavaScript strings and numbers used by the routes\<close>

text \<open>
  The routes of \<^verbatim>\<open>apps/api/src/routes/workouts.ts\<close> store a workout's weekdays as
  one comma-separated string (\<^verbatim>\<open>schedule.days.join(',')\<close>) and read it back with
  \<^verbatim>\<open>scheduleDays.split(',').map(day => parseInt(day))\<close>. The library functions they
  call are modelled on \<open>string\<close> (a list of 8-bit characters). A JavaScript number
  that is an integer is modelled by \<open>int\<close> (\<^verbatim>\<open>Number.prototype.toString\<close> prints
  plain decimal digits below \<open>10^21\<close> in magnitude), and \<open>NaN\<close> is the value \<open>None\<close>
  of \<open>int option\<close>.
\<close>

definition digitChar :: "nat \<Rightarrow> char" where
  "digitChar d = char_of (48 + d)"

fun natToString :: "nat \<Rightarrow> string" where
  "natToString n = (if n < 10 then [digitChar n] else natToString (n div 10) @ [digitChar (n mod 10)])"

declare natToString.simps [simp del]

text \<open>\<^verbatim>\<open>Number.prototype.toString()\<close> on an integer.\<close>

definition toString :: "int \<Rightarrow> string" where
  "toString i = (if i < 0 then CHR ''-'' # natToString (nat (- i)) else natToString (nat i))"

text \<open>\<^verbatim>\<open>toString()\<close> on a number that may be \<open>NaN\<close>.\<close>

definition numberToString :: "int option \<Rightarrow> string" where
  "numberToString v = (case v of None \<Rightarrow> ''NaN'' | Some i \<Rightarrow> toString i)"

text \<open>
  \<^verbatim>\<open>Array.prototype.join(sep)\<close> on an array of strings: the empty array gives the
  empty string, and the separator stands between elements only.
\<close>

fun join :: "string \<Rightarrow> string list \<Rightarrow> string" where
  "join sep [] = []"
| "join sep [x] = x"
| "join sep (x # y # ys) = x @ sep @ join sep (y # ys)"

text \<open>
  \<^verbatim>\<open>String.prototype.split(',')\<close> with a one-character separator: the result always
  has one more element than the string has separators, so the empty string splits
  into the one-element array holding the empty string.
\<close>

fun split :: "char \<Rightarrow> string \<Rightarrow> string list" where
  "split sep [] = [[]]"
| "split sep (c # cs) =
     (if c = sep then [] # split sep cs
      else (case split sep cs of [] \<Rightarrow> [[c]] | r # rs \<Rightarrow> (c # r) # rs))"

text \<open>
  \<^verbatim>\<open>parseInt(s)\<close> with no radix: leading white space is skipped, one sign is read, a
  \<^verbatim>\<open>0x\<close> prefix selects radix 16, and the longest prefix of digits of the radix is
  the value; with no digit at all the result is \<open>NaN\<close>.
\<close>

definition isWhiteSpace :: "char \<Rightarrow> bool" where
  "isWhiteSpace c = (c \<in> set [CHR '' '', CHR 0x09, CHR 0x0A, CHR 0x0B, CHR 0x0C, CHR 0x0D])"

definition digitValue :: "char \<Rightarrow> nat option" where
  "digitValue c =
     (let n = of_char c :: nat in
      if 48 \<le> n \<and> n \<le> 57 then Some (n - 48)
      else if 97 \<le> n \<and> n \<le> 122 then Some (n - 87)
      else if 65 \<le> n \<and> n \<le> 90 then Some (n - 55)
      else None)"

text \<open>The digits of radix \<open>r\<close> at the front of the string, most significant first.\<close>

fun leadingDigits :: "nat \<Rightarrow> string \<Rightarrow> nat list" where
  "leadingDigits r [] = []"
| "leadingDigits r (c # cs) =
     (case digitValue c of
        None \<Rightarrow> []
      | Some d \<Rightarrow> (if d < r then d # leadingDigits r cs else []))"

definition digitsValue :: "nat \<Rightarrow> nat list \<Rightarrow> nat" where
  "digitsValue r ds = foldl (\<lambda>acc d. acc * r + d) 0 ds"

definition parseInt :: "string \<Rightarrow> int option" where
  "parseInt s =
     (let s1 = dropWhile isWhiteSpace s;
          neg = (s1 \<noteq> [] \<and> hd s1 = CHR ''-'');
          s2 = (if s1 \<noteq> [] \<and> (hd s1 = CHR ''-'' \<or> hd s1 = CHR ''+'') then tl s1 else s1);
          hex = (take 2 s2 = ''0x'' \<or> take 2 s2 = ''0X'');
          r = (if hex then 16 else 10);
          s3 = (if hex then drop 2 s2 else s2);
          ds = leadingDigits r s3
      in if ds = [] then None
         else Some ((if neg then - 1 else 1) * int (digitsValue r ds)))"

text \<open>
  The stored encoding of a weekday list (\<^verbatim>\<open>schedule.days.join(',')\<close> in
  \<^verbatim>\<open>POST /\<close>) and its decoding (the \<^verbatim>\<open>days\<close> field computed by
  \<^verbatim>\<open>parseWorkoutScheduleDays\<close>).
\<close>

definition serializeDays :: "int list \<Rightarrow> string" where
  "serializeDays days = join '','' (map toString days)"

definition parseDays :: "string \<Rightarrow> int option list" where
  "parseDays scheduleDays = map parseInt (split CHR '','' scheduleDays)"

text \<open>
  Prisma's string filter \<^verbatim>\<open>{ contains: s }\<close> (on SQLite a \<^verbatim>\<open>LIKE '%s%'\<close>): the
  stored string has \<open>s\<close> as a contiguous substring.
\<close>

fun startsWith :: "string \<Rightarrow> string \<Rightarrow> bool" where
  "startsWith s [] = True"
| "startsWith [] (p # ps) = False"
| "startsWith (c # cs) (p # ps) = (c = p \<and> startsWith cs ps)"

fun contains :: "string \<Rightarrow> string \<Rightarrow> bool" where
  "contains [] sub = (sub = [])"
| "contains (c # cs) sub = (startsWith (c # cs) sub \<or> contains cs sub)"

section \<open>Dates\<close>

text \<open>
  A JavaScript \<^verbatim>\<open>Date\<close> holds a time value, the milliseconds since
  1970-01-01T00:00:00Z, or \<open>NaN\<close> (an Invalid Date): it is modelled as \<open>int option\<close>,
  and a valid one by its \<open>int\<close>. The functions below are those of ECMAScript's Date
  objects that the routes call, with the names of the language specification.
\<close>

definition msPerDay :: int where
  "msPerDay = 86400000"

definition Day :: "int \<Rightarrow> int" where
  "Day t = t div msPerDay"

definition TimeWithinDay :: "int \<Rightarrow> int" where
  "TimeWithinDay t = t mod msPerDay"

text \<open>0 is Sunday; day 0 (1970-01-01) was a Thursday.\<close>

definition WeekDay :: "int \<Rightarrow> int" where
  "WeekDay t = (Day t + 4) mod 7"

definition MakeTime :: "int \<Rightarrow> int \<Rightarrow> int \<Rightarrow> int \<Rightarrow> int" where
  "MakeTime h m s ms = h * 3600000 + m * 60000 + s * 1000 + ms"

definition MakeDate :: "int \<Rightarrow> int \<Rightarrow> int" where
  "MakeDate day time = day * msPerDay + time"

text \<open>
  The proleptic Gregorian calendar: year, month (1 to 12) and day of the month of a
  day number, and the day number of a calendar date.
\<close>

definition civilFromDays :: "int \<Rightarrow> int \<times> int \<times> int" where
  "civilFromDays n =
     (let z = n + 719468;
          era = z div 146097;
          doe = z mod 146097;
          yoe = (doe - doe div 1460 + doe div 36524 - doe div 146096) div 365;
          doy = doe - (365 * yoe + yoe div 4 - yoe div 100);
          mp = (5 * doy + 2) div 153;
          d = doy - (153 * mp + 2) div 5 + 1;
          m = (if mp < 10 then mp + 3 else mp - 9);
          y = yoe + era * 400 + (if m \<le> 2 then 1 else 0)
      in (y, m, d))"

definition daysFromCivil :: "int \<Rightarrow> int \<Rightarrow> int \<Rightarrow> int" where
  "daysFromCivil y m d =
     (let y1 = (if m \<le> 2 then y - 1 else y);
          era = y1 div 400;
          yoe = y1 mod 400;
          doy = (153 * (if m > 2 then m - 3 else m + 9) + 2) div 5 + d - 1;
          doe = yoe * 365 + yoe div 4 - yoe div 100 + doy
      in era * 146097 + doe - 719468)"

definition daysInMonth :: "int \<Rightarrow> int \<Rightarrow> int" where
  "daysInMonth y m =
     (if m = 2 then (if y mod 4 = 0 \<and> (y mod 100 \<noteq> 0 \<or> y mod 400 = 0) then 29 else 28)
      else if m \<in> set [4, 6, 9, 11] then 30 else 31)"

definition DateFromTime :: "int \<Rightarrow> int" where
  "DateFromTime t = (case civilFromDays (Day t) of (y, m, d) \<Rightarrow> d)"

text \<open>
  \<^verbatim>\<open>MakeDay(YearFromTime(t), MonthFromTime(t), dt)\<close>, the only way the routes reach
  \<^verbatim>\<open>MakeDay\<close> (through \<^verbatim>\<open>setDate\<close>): the day number of the first day of the
  month of \<open>t\<close>, plus \<open>dt - 1\<close>. Days past the end of the month run on into the
  next months.
\<close>

definition MakeDayInMonthOf :: "int \<Rightarrow> int \<Rightarrow> int" where
  "MakeDayInMonthOf t dt = (Day t - (DateFromTime t - 1)) + dt - 1"

text \<open>
  What the process the server runs in adds to the code: its time zone, as the two
  readings of ECMAScript's \<^verbatim>\<open>LocalTZA(t, isUTC)\<close> (the offset of local time from UTC,
  in milliseconds, at a UTC instant and at a local wall-clock time), the parser behind
  \<^verbatim>\<open>new Date(string)\<close> (\<open>None\<close> is an Invalid Date), and the clock read by
  \<^verbatim>\<open>new Date()\<close>.
\<close>

record runtime =
  offsetAtUTC :: "int \<Rightarrow> int"
  offsetAtLocal :: "int \<Rightarrow> int"
  parseDateString :: "string \<Rightarrow> int option"
  clock :: int

definition LocalTime :: "runtime \<Rightarrow> int \<Rightarrow> int" where
  "LocalTime rt t = t + offsetAtUTC rt t"

definition UTC :: "runtime \<Rightarrow> int \<Rightarrow> int" where
  "UTC rt t = t - offsetAtLocal rt t"

text \<open>\<^verbatim>\<open>getDay()\<close>: the weekday in local time; \<open>NaN\<close> on an Invalid Date.\<close>

definition getDay :: "runtime \<Rightarrow> int option \<Rightarrow> int option" where
  "getDay rt d = map_option (\<lambda>t. WeekDay (LocalTime rt t)) d"

text \<open>\<^verbatim>\<open>getDate()\<close>: the day of the month in local time.\<close>

definition getDate :: "runtime \<Rightarrow> int \<Rightarrow> int" where
  "getDate rt t = DateFromTime (LocalTime rt t)"

text \<open>\<^verbatim>\<open>setDate(dt)\<close>: the day of the month is replaced in local time.\<close>

definition setDate :: "runtime \<Rightarrow> int \<Rightarrow> int \<Rightarrow> int" where
  "setDate rt t dt =
     (let lt = LocalTime rt t
      in UTC rt (MakeDate (MakeDayInMonthOf lt dt) (TimeWithinDay lt)))"

text \<open>\<^verbatim>\<open>setHours(h, m, s, ms)\<close>: the time of day is replaced in local time.\<close>

definition setHours :: "runtime \<Rightarrow> int \<Rightarrow> int \<Rightarrow> int \<Rightarrow> int \<Rightarrow> int \<Rightarrow> int" where
  "setHours rt t h m s ms = UTC rt (MakeDate (Day (LocalTime rt t)) (MakeTime h m s ms))"

text \<open>\<^verbatim>\<open>setUTCHours(h, m, s, ms)\<close>: the time of day is replaced in UTC.\<close>

definition setUTCHours :: "int \<Rightarrow> int \<Rightarrow> int \<Rightarrow> int \<Rightarrow> int \<Rightarrow> int" where
  "setUTCHours t h m s ms = MakeDate (Day t) (MakeTime h m s ms)"

text \<open>
  \<^verbatim>\<open>toISOString().split('T')[0]\<close>: the calendar date of the instant in UTC, as
  \<^verbatim>\<open>YYYY-MM-DD\<close> (years outside 0 to 9999 are written with a sign and six digits).
\<close>

definition padLeft :: "nat \<Rightarrow> string \<Rightarrow> string" where
  "padLeft n s = replicate (n - length s) CHR ''0'' @ s"

definition isoDate :: "int \<Rightarrow> string" where
  "isoDate t =
     (case civilFromDays (Day t) of (y, m, d) \<Rightarrow>
        (if 0 \<le> y \<and> y \<le> 9999 then padLeft 4 (toString y)
         else (if y < 0 then ''-'' else ''+'') @ padLeft 6 (toString (abs y)))
        @ ''-'' @ padLeft 2 (toString m) @ ''-'' @ padLeft 2 (toString d))"

text \<open>The test of \<^verbatim>\<open>/^\d{4}-\d{2}-\d{2}$/\<close> on the date parameter.\<close>

definition isDigit :: "char \<Rightarrow> bool" where
  "isDigit c = (48 \<le> (of_char c :: nat) \<and> (of_char c :: nat) \<le> 57)"

definition dateRegexTest :: "string \<Rightarrow> bool" where
  "dateRegexTest s =
     (length s = 10 \<and> list_all isDigit (take 4 s) \<and> s ! 4 = CHR ''-''
      \<and> list_all isDigit (take 2 (drop 5 s)) \<and> s ! 7 = CHR ''-''
      \<and> list_all isDigit (drop 8 s))"

text \<open>
  The date-only form of ECMAScript's date-time string format: \<^verbatim>\<open>YYYY-MM-DD\<close> is
  midnight UTC of that calendar date. It is the value of \<open>parseDateString\<close> on the
  dates the routes document; on a month or day that the calendar does not have it
  gives an Invalid Date here.
\<close>

definition isoDateOnly :: "string \<Rightarrow> int option" where
  "isoDateOnly s =
     (if \<not> dateRegexTest s then None
      else (let y = int (digitsValue 10 (leadingDigits 10 (take 4 s)));
                m = int (digitsValue 10 (leadingDigits 10 (take 2 (drop 5 s))));
                d = int (digitsValue 10 (leadingDigits 10 (drop 8 s)))
            in if 1 \<le> m \<and> m \<le> 12 \<and> 1 \<le> d \<and> d \<le> daysInMonth y m
               then Some (daysFromCivil y m d * msPerDay) else None))"

text \<open>
  Time zones: a fixed offset of \<open>minutes\<close> east of UTC, and a zone with a summer
  time: the offset is \<open>std\<close> milliseconds, and \<open>dst\<close> from the UTC instant \<open>begin\<close>
  up to the UTC instant \<open>finish\<close>. A wall-clock time that the change skips or
  repeats is read with the offset in force before the change.
\<close>

definition fixedZone :: "int \<Rightarrow> int \<Rightarrow> runtime" where
  "fixedZone minutes now =
     \<lparr>offsetAtUTC = (\<lambda>t. minutes * 60000), offsetAtLocal = (\<lambda>t. minutes * 60000),
      parseDateString = isoDateOnly, clock = now\<rparr>"

definition summerTimeZone :: "int \<Rightarrow> int \<Rightarrow> int \<Rightarrow> int \<Rightarrow> int \<Rightarrow> runtime" where
  "summerTimeZone std dst begin finish now =
     \<lparr>offsetAtUTC = (\<lambda>t. if begin \<le> t \<and> t < finish then dst else std),
      offsetAtLocal = (\<lambda>t. if begin + dst \<le> t \<and> t < finish + dst then dst else std),
      parseDateString = isoDateOnly, clock = now\<rparr>"

text \<open>
  Central European Time with the summer time of 2024, from 2024-03-31T01:00Z to
  2024-10-27T01:00Z (the zone \<^verbatim>\<open>Europe/Berlin\<close> in that year).
\<close>

definition europeBerlin2024 :: "int \<Rightarrow> runtime" where
  "europeBerlin2024 now = summerTimeZone 3600000 7200000 1711846800000 1729990800000 now"

section \<open>Request bodies and the creation schema\<close>

text \<open>
  A request body is the JSON value that \<^verbatim>\<open>express.json()\<close> parsed. A number of the
  body is an integer, \<open>JNum n\<close>, or a decimal with a fraction, \<open>JDec m k\<close> for
  \<open>m / 10^k\<close>, as its JSON text writes it. A property that an object does not have
  reads as \<^verbatim>\<open>undefined\<close>, which is \<open>None\<close>, and of a repeated key the last one
  counts.
\<close>

datatype json = JNull | JBool bool | JNum int | JDec int nat | JStr string | JArr "json list"
  | JObj "(string \<times> json) list"

text \<open>
  A JavaScript number that came from a body: \<open>Whole n\<close> is the integer \<open>n\<close>,
  \<open>Decimal m k\<close> is \<open>m / 10^k\<close>. \<open>wholeValue\<close> is the integer that a number is, if
  it is one (\<^verbatim>\<open>2.0\<close> is 2).
\<close>

datatype number = Whole int | Decimal int nat

fun wholeValue :: "number \<Rightarrow> int option" where
  "wholeValue (Whole n) = Some n"
| "wholeValue (Decimal m k) = (if m mod 10 ^ k = 0 then Some (m div 10 ^ k) else None)"

text \<open>
  \<^verbatim>\<open>Number.prototype.toString()\<close> on such a number: an integer prints as above, and
  a number with a fraction prints its sign, the digits before the point, the point and
  the digits after it up to the last that is not zero (as JavaScript does for a number
  of at most 15 significant digits that is not below \<open>10^-6\<close> in magnitude).
\<close>

definition fractionDigits :: "nat \<Rightarrow> nat \<Rightarrow> string" where
  "fractionDigits k f =
     rev (dropWhile (\<lambda>c. c = CHR ''0'') (rev (padLeft k (natToString f))))"

definition decimalToString :: "number \<Rightarrow> string" where
  "decimalToString x =
     (case wholeValue x of
        Some n \<Rightarrow> toString n
      | None \<Rightarrow>
          (case x of
             Whole n \<Rightarrow> toString n
           | Decimal m k \<Rightarrow>
               (if m < 0 then ''-'' else [])
               @ natToString (nat (abs m) div 10 ^ k) @ ''.''
               @ fractionDigits k (nat (abs m) mod 10 ^ k)))"

text \<open>\<^verbatim>\<open>Math.trunc\<close>: the integer part of a number, towards zero.\<close>

fun truncated :: "number \<Rightarrow> int" where
  "truncated (Whole n) = n"
| "truncated (Decimal m k) = (if m < 0 then - (int (nat (- m) div 10 ^ k)) else int (nat m div 10 ^ k))"

definition getProp :: "json \<Rightarrow> string \<Rightarrow> json option" where
  "getProp v k = (case v of JObj fs \<Rightarrow> map_of (rev fs) k | _ \<Rightarrow> None)"

text \<open>JavaScript's \<^verbatim>\<open>String(v)\<close>; in an array \<^verbatim>\<open>null\<close> prints as nothing.\<close>

fun jsToString :: "json \<Rightarrow> string" where
  "jsToString JNull = ''null''"
| "jsToString (JBool b) = (if b then ''true'' else ''false'')"
| "jsToString (JNum n) = toString n"
| "jsToString (JDec m k) = decimalToString (Decimal m k)"
| "jsToString (JStr s) = s"
| "jsToString (JArr xs) = join '','' (map (\<lambda>x. if x = JNull then [] else jsToString x) xs)"
| "jsToString (JObj fs) = ''[object Object]''"

text \<open>The test \<^verbatim>\<open>!v\<close> is true of a value that is not \<open>truthy\<close>.\<close>

fun truthy :: "json option \<Rightarrow> bool" where
  "truthy None = False"
| "truthy (Some JNull) = False"
| "truthy (Some (JBool b)) = b"
| "truthy (Some (JNum n)) = (n \<noteq> 0)"
| "truthy (Some (JDec m k)) = (m \<noteq> 0)"
| "truthy (Some (JStr s)) = (s \<noteq> [])"
| "truthy (Some (JArr xs)) = True"
| "truthy (Some (JObj fs)) = True"

text \<open>
  \<^verbatim>\<open>new Date(v)\<close> on a value of a request body; of a number the time value is the
  integer part.
\<close>

fun newDate :: "runtime \<Rightarrow> json \<Rightarrow> int option" where
  "newDate rt JNull = Some 0"
| "newDate rt (JBool b) = Some (if b then 1 else 0)"
| "newDate rt (JNum n) = Some n"
| "newDate rt (JDec m k) = Some (truncated (Decimal m k))"
| "newDate rt (JStr s) = parseDateString rt s"
| "newDate rt (JArr xs) = parseDateString rt (jsToString (JArr xs))"
| "newDate rt (JObj fs) = parseDateString rt (jsToString (JObj fs))"

text \<open>
  A zod schema's \<^verbatim>\<open>parse\<close> returns the parsed value or throws a \<^verbatim>\<open>ZodError\<close>
  holding one issue for every value that is not as the schema says; an issue is
  modelled by its path, the keys and indices that lead from the body to the value.
  A schema is a function from the path and the value (\<open>None\<close> is \<^verbatim>\<open>undefined\<close>)
  to the issues (\<open>Inl\<close>) or the parsed value (\<open>Inr\<close>).
\<close>

datatype pathSeg = Key string | Idx nat

type_synonym issue = "pathSeg list"

definition issuesOf :: "issue list + 'a \<Rightarrow> issue list" where
  "issuesOf r = (case r of Inl is \<Rightarrow> is | Inr v \<Rightarrow> [])"

definition zString :: "issue \<Rightarrow> json option \<Rightarrow> issue list + string" where
  "zString p v = (case v of Some (JStr s) \<Rightarrow> Inr s | _ \<Rightarrow> Inl [p])"

text \<open>\<^verbatim>\<open>z.number()\<close> takes the values that are numbers.\<close>

definition numberOf :: "json \<Rightarrow> number option" where
  "numberOf j = (case j of JNum n \<Rightarrow> Some (Whole n) | JDec m k \<Rightarrow> Some (Decimal m k) | _ \<Rightarrow> None)"

definition zNumber :: "issue \<Rightarrow> json option \<Rightarrow> issue list + number" where
  "zNumber p v = (case Option.bind v numberOf of Some x \<Rightarrow> Inr x | None \<Rightarrow> Inl [p])"

definition zEnum :: "string list \<Rightarrow> issue \<Rightarrow> json option \<Rightarrow> issue list + string" where
  "zEnum options p v =
     (case v of Some (JStr s) \<Rightarrow> (if s \<in> set options then Inr s else Inl [p]) | _ \<Rightarrow> Inl [p])"

definition zOptional ::
  "(issue \<Rightarrow> json option \<Rightarrow> issue list + 'a) \<Rightarrow> issue \<Rightarrow> json option \<Rightarrow> issue list + 'a option" where
  "zOptional schema p v =
     (case v of None \<Rightarrow> Inr None
      | Some x \<Rightarrow> (case schema p v of Inl is \<Rightarrow> Inl is | Inr y \<Rightarrow> Inr (Some y)))"

fun collect :: "(issue list + 'a) list \<Rightarrow> issue list + 'a list" where
  "collect [] = Inr []"
| "collect (r # rs) =
     (case (r, collect rs) of
        (Inr x, Inr xs) \<Rightarrow> Inr (x # xs)
      | (r', rs') \<Rightarrow> Inl (issuesOf r' @ issuesOf rs'))"

definition zArray ::
  "(issue \<Rightarrow> json option \<Rightarrow> issue list + 'a) \<Rightarrow> issue \<Rightarrow> json option \<Rightarrow> issue list + 'a list" where
  "zArray schema p v =
     (case v of
        Some (JArr xs) \<Rightarrow> collect (map (\<lambda>(i, x). schema (p @ [Idx i]) (Some x)) (enumerate 0 xs))
      | _ \<Rightarrow> Inl [p])"

text \<open>
  \<^verbatim>\<open>workoutSchema\<close> (lines 8 to 23 of \<^verbatim>\<open>workouts.ts\<close>) and the values it parses to.
\<close>

record ExerciseInput =
  in_name :: string
  in_sets :: number
  in_reps :: number
  in_weight :: number
  in_notes :: "string option"

record ScheduleInput =
  s_type :: string
  s_days :: "number list"
  s_frequency :: number

record WorkoutInput =
  wi_name :: string
  wi_category :: string
  wi_exercises :: "ExerciseInput list"
  wi_schedule :: ScheduleInput

definition exerciseSchema :: "issue \<Rightarrow> json option \<Rightarrow> issue list + ExerciseInput" where
  "exerciseSchema p v =
     (case v of
        Some (JObj fs) \<Rightarrow>
          (let n = zString (p @ [Key ''name'']) (getProp (JObj fs) ''name'');
               s = zNumber (p @ [Key ''sets'']) (getProp (JObj fs) ''sets'');
               r = zNumber (p @ [Key ''reps'']) (getProp (JObj fs) ''reps'');
               w = zNumber (p @ [Key ''weight'']) (getProp (JObj fs) ''weight'');
               nt = zOptional zString (p @ [Key ''notes'']) (getProp (JObj fs) ''notes'')
           in case (n, s, r, w, nt) of
                (Inr n', Inr s', Inr r', Inr w', Inr nt') \<Rightarrow>
                  Inr \<lparr>in_name = n', in_sets = s', in_reps = r', in_weight = w', in_notes = nt'\<rparr>
              | _ \<Rightarrow> Inl (issuesOf n @ issuesOf s @ issuesOf r @ issuesOf w @ issuesOf nt))
      | _ \<Rightarrow> Inl [p])"

definition scheduleSchema :: "issue \<Rightarrow> json option \<Rightarrow> issue list + ScheduleInput" where
  "scheduleSchema p v =
     (case v of
        Some (JObj fs) \<Rightarrow>
          (let ty = zEnum [''weekly'', ''daily''] (p @ [Key ''type'']) (getProp (JObj fs) ''type'');
               ds = zArray zNumber (p @ [Key ''days'']) (getProp (JObj fs) ''days'');
               fr = zNumber (p @ [Key ''frequency'']) (getProp (JObj fs) ''frequency'')
           in case (ty, ds, fr) of
                (Inr ty', Inr ds', Inr fr') \<Rightarrow>
                  Inr \<lparr>s_type = ty', s_days = ds', s_frequency = fr'\<rparr>
              | _ \<Rightarrow> Inl (issuesOf ty @ issuesOf ds @ issuesOf fr))
      | _ \<Rightarrow> Inl [p])"

definition workoutSchema :: "json \<Rightarrow> issue list + WorkoutInput" where
  "workoutSchema body =
     (case body of
        JObj fs \<Rightarrow>
          (let n = zString [Key ''name''] (getProp body ''name'');
               c = zEnum [''Push'', ''Pull'', ''Legs'', ''Upper'', ''Lower''] [Key ''category'']
                     (getProp body ''category'');
               es = zArray exerciseSchema [Key ''exercises''] (getProp body ''exercises'');
               sc = scheduleSchema [Key ''schedule''] (getProp body ''schedule'')
           in case (n, c, es, sc) of
                (Inr n', Inr c', Inr es', Inr sc') \<Rightarrow>
                  Inr \<lparr>wi_name = n', wi_category = c', wi_exercises = es', wi_schedule = sc'\<rparr>
              | _ \<Rightarrow> Inl (issuesOf n @ issuesOf c @ issuesOf es @ issuesOf sc))
      | _ \<Rightarrow> Inl [[]])"

section \<open>The store\<close>

text \<open>
  The tables of the Prisma schema that the routes touch, each a list of rows in
  the order SQLite keeps them (by row id, which is the order of creation), and the last
  id each table has given out (\<^verbatim>\<open>AUTOINCREMENT\<close>). An \<^verbatim>\<open>Int\<close> column holds an
  integer and a \<^verbatim>\<open>Float\<close> column a number. The foreign keys are those of the
  migrations, all \<^verbatim>\<open>ON DELETE RESTRICT\<close>. The caller of a route is a registered
  user, whose id the authentication middleware has put in \<^verbatim>\<open>req.user.id\<close>.
\<close>

record Exercise =
  ex_id :: int
  ex_name :: string
  ex_sets :: int
  ex_reps :: int
  ex_weight :: number
  ex_progress :: int
  ex_notes :: "string option"
  ex_workoutId :: int

record Workout =
  w_id :: int
  w_name :: string
  w_category :: string
  w_userId :: int
  w_scheduleType :: string
  w_scheduleDays :: string
  w_frequency :: int
  w_createdAt :: int

record WorkoutLog =
  l_id :: int
  l_userId :: int
  l_workoutId :: int
  l_date :: int
  l_exercises :: json

record database =
  db_workouts :: "Workout list"
  db_exercises :: "Exercise list"
  db_logs :: "WorkoutLog list"
  workoutSeq :: int
  exerciseSeq :: int
  logSeq :: int

text \<open>
  \<^verbatim>\<open>findFirst({ where })\<close> with no \<^verbatim>\<open>orderBy\<close>: the first row, in the table's
  order, that the filter accepts, or \<^verbatim>\<open>null\<close>.
\<close>

definition findFirst :: "('a \<Rightarrow> bool) \<Rightarrow> 'a list \<Rightarrow> 'a option" where
  "findFirst wh rows = find wh rows"

text \<open>\<^verbatim>\<open>include: { exercises: true }\<close>: the exercises of a workout.\<close>

definition exercisesOf :: "database \<Rightarrow> Workout \<Rightarrow> Exercise list" where
  "exercisesOf db w = filter (\<lambda>e. ex_workoutId e = w_id w) (db_exercises db)"

text \<open>What a route answers: the status and the body.\<close>

datatype 'a reply = Success 'a | Invalid "issue list" | Failure nat string

fun status :: "'a reply \<Rightarrow> nat" where
  "status (Success x) = 200"
| "status (Invalid is) = 400"
| "status (Failure code message) = code"

section \<open>The routes of \<^verbatim>\<open>workouts.ts\<close>\<close>

text \<open>
  \<^verbatim>\<open>parseWorkoutScheduleDays\<close> (lines 25 to 30): the row and its exercises, with the
  fields \<^verbatim>\<open>days\<close>, \<^verbatim>\<open>type\<close> and \<^verbatim>\<open>frequency\<close> added.
\<close>

record WorkoutView =
  v_workout :: Workout
  v_exercises :: "Exercise list"
  v_days :: "int option list"
  v_type :: string
  v_frequency :: int

definition parseWorkoutScheduleDays :: "Workout \<Rightarrow> Exercise list \<Rightarrow> WorkoutView" where
  "parseWorkoutScheduleDays workout exs =
     \<lparr>v_workout = workout, v_exercises = exs,
      v_days = map parseInt (split CHR '','' (w_scheduleDays workout)),
      v_type = w_scheduleType workout,
      v_frequency = w_frequency workout\<rparr>"

text \<open>\<^verbatim>\<open>GET /\<close> (lines 33 to 44).\<close>

definition getWorkouts :: "database \<Rightarrow> int \<Rightarrow> WorkoutView list reply" where
  "getWorkouts db uid =
     Success (map (\<lambda>w. parseWorkoutScheduleDays w (exercisesOf db w))
                (filter (\<lambda>w. w_userId w = uid) (db_workouts db)))"

text \<open>
  The filter of the two day queries (lines 55 to 66 and 223 to 234): the caller's
  workouts that are daily, or weekly with the weekday's digits somewhere in the stored
  string.
\<close>

definition scheduledWhere :: "int \<Rightarrow> int option \<Rightarrow> Workout \<Rightarrow> bool" where
  "scheduledWhere uid dayOfWeek w =
     (w_userId w = uid \<and>
      (w_scheduleType w = ''daily'' \<or>
       (w_scheduleType w = ''weekly'' \<and> contains (w_scheduleDays w) (numberToString dayOfWeek))))"

text \<open>\<^verbatim>\<open>GET /date/:date\<close> (lines 47 to 86).\<close>

record DayResponse =
  r_date :: string
  r_category :: string
  r_exercises :: "Exercise list"

definition getWorkoutForDate :: "runtime \<Rightarrow> database \<Rightarrow> int \<Rightarrow> string \<Rightarrow> DayResponse reply" where
  "getWorkoutForDate rt db uid date =
     (let targetDate = parseDateString rt date;
          dayOfWeek = getDay rt targetDate;
          workout = findFirst (scheduledWhere uid dayOfWeek) (db_workouts db)
      in case workout of
           None \<Rightarrow> Success \<lparr>r_date = date, r_category = ''Rest'', r_exercises = []\<rparr>
         | Some w \<Rightarrow>
             Success \<lparr>r_date = date, r_category = w_category w, r_exercises = exercisesOf db w\<rparr>)"

text \<open>
  What \<^verbatim>\<open>prisma.workout.create\<close> takes for an \<^verbatim>\<open>Int\<close> column (\<^verbatim>\<open>sets\<close>,
  \<^verbatim>\<open>reps\<close>, \<^verbatim>\<open>frequency\<close>): a number that is an integer and fits the 64-bit signed
  integers of the query engine and of SQLite. For any other number it throws, which is
  \<open>None\<close>.
\<close>

definition fitsInt :: "int \<Rightarrow> bool" where
  "fitsInt n = (- (2 ^ 63) \<le> n \<and> n < 2 ^ 63)"

definition intColumn :: "number \<Rightarrow> int option" where
  "intColumn x = (case wholeValue x of None \<Rightarrow> None | Some n \<Rightarrow> (if fitsInt n then Some n else None))"

definition newExercise :: "int \<Rightarrow> (nat \<times> ExerciseInput) \<Rightarrow> Exercise option" where
  "newExercise wid ie =
     (case (intColumn (in_sets (snd ie)), intColumn (in_reps (snd ie))) of
        (Some sets, Some reps) \<Rightarrow>
          Some \<lparr>ex_id = int (fst ie), ex_name = in_name (snd ie), ex_sets = sets, ex_reps = reps,
                ex_weight = in_weight (snd ie), ex_progress = 0, ex_notes = in_notes (snd ie),
                ex_workoutId = wid\<rparr>
      | _ \<Rightarrow> None)"

text \<open>
  The nested \<^verbatim>\<open>create\<close> of \<^verbatim>\<open>POST /\<close>: it inserts the workout and its exercises, each
  with the next id of its table, or throws and inserts nothing.
\<close>

definition workoutCreate ::
  "runtime \<Rightarrow> database \<Rightarrow> int \<Rightarrow> WorkoutInput \<Rightarrow> (Workout \<times> database) option" where
  "workoutCreate rt db uid workoutData =
     (case (intColumn (s_frequency (wi_schedule workoutData)),
            those (map (newExercise (workoutSeq db + 1))
                     (enumerate (nat (exerciseSeq db + 1)) (wi_exercises workoutData)))) of
        (Some frequency, Some exs) \<Rightarrow>
          (let workout = \<lparr>w_id = workoutSeq db + 1,
                          w_name = wi_name workoutData,
                          w_category = wi_category workoutData,
                          w_userId = uid,
                          w_scheduleType = s_type (wi_schedule workoutData),
                          w_scheduleDays =
                            join '','' (map decimalToString (s_days (wi_schedule workoutData))),
                          w_frequency = frequency,
                          w_createdAt = clock rt\<rparr>
           in Some (workout,
                    db\<lparr>db_workouts := db_workouts db @ [workout],
                       db_exercises := db_exercises db @ exs,
                       workoutSeq := workoutSeq db + 1,
                       exerciseSeq := exerciseSeq db + int (length exs)\<rparr>))
      | _ \<Rightarrow> None)"

text \<open>
  \<^verbatim>\<open>POST /\<close> (lines 89 to 115): a \<^verbatim>\<open>ZodError\<close> is answered 400 with its issues, and
  anything else that is thrown is answered 500.
\<close>

definition createWorkout ::
  "runtime \<Rightarrow> database \<Rightarrow> int \<Rightarrow> json \<Rightarrow> WorkoutView reply \<times> database" where
  "createWorkout rt db uid body =
     (case workoutSchema body of
        Inl issues \<Rightarrow> (Invalid issues, db)
      | Inr workoutData \<Rightarrow>
          (case workoutCreate rt db uid workoutData of
             None \<Rightarrow> (Failure 500 ''Failed to create workout'', db)
           | Some (workout, db') \<Rightarrow>
               (Success (parseWorkoutScheduleDays workout (exercisesOf db' workout)), db')))"

text \<open>
  \<^verbatim>\<open>res.json\<close> writes the reply with \<^verbatim>\<open>JSON.stringify\<close>, in which \<open>NaN\<close> is
  \<^verbatim>\<open>null\<close>: the \<^verbatim>\<open>days\<close> of a workout as the reply carries them.
\<close>

definition daysJson :: "int option list \<Rightarrow> json" where
  "daysJson days = JArr (map (\<lambda>d. case d of None \<Rightarrow> JNull | Some n \<Rightarrow> JNum n) days)"

text \<open>
  \<^verbatim>\<open>prisma.workoutLog.create\<close>: the arguments must be a number that is not \<open>NaN\<close>, a
  valid date and a JSON value that is not \<^verbatim>\<open>undefined\<close> or \<^verbatim>\<open>null\<close>, and the
  workout must exist (the foreign key); otherwise it throws, which is \<open>None\<close>.
\<close>

definition createWorkoutLog ::
  "database \<Rightarrow> int \<Rightarrow> int option \<Rightarrow> int option \<Rightarrow> json option \<Rightarrow> (WorkoutLog \<times> database) option" where
  "createWorkoutLog db uid workoutId date exs =
     (case (workoutId, date, exs) of
        (Some wid, Some d, Some e) \<Rightarrow>
          (if e = JNull \<or> find (\<lambda>w. w_id w = wid) (db_workouts db) = None then None
           else (let row = \<lparr>l_id = logSeq db + 1, l_userId = uid, l_workoutId = wid,
                             l_date = d, l_exercises = e\<rparr>
                 in Some (row, db\<lparr>db_logs := db_logs db @ [row], logSeq := logSeq db + 1\<rparr>)))
      | _ \<Rightarrow> None)"

text \<open>\<^verbatim>\<open>POST /:id/log\<close> (lines 118 to 136).\<close>

definition logWorkoutSession ::
  "runtime \<Rightarrow> database \<Rightarrow> int \<Rightarrow> string \<Rightarrow> json \<Rightarrow> WorkoutLog reply \<times> database" where
  "logWorkoutSession rt db uid idParam body =
     (let exs = getProp body ''exercises''
      in case createWorkoutLog db uid (parseInt idParam) (Some (clock rt)) exs of
           None \<Rightarrow> (Failure 500 ''Failed to log workout'', db)
         | Some (workoutLog, db') \<Rightarrow> (Success workoutLog, db'))"

text \<open>
  \<^verbatim>\<open>POST /logs\<close> (lines 324 to 351). A field that passes the test \<^verbatim>\<open>!v\<close> is
  there, so the last case below is never reached. The reply also carries the rows of
  the workout and of the user (\<^verbatim>\<open>include\<close>), which the model leaves out.
\<close>

definition logWorkout ::
  "runtime \<Rightarrow> database \<Rightarrow> int \<Rightarrow> json \<Rightarrow> WorkoutLog reply \<times> database" where
  "logWorkout rt db uid body =
     (let date = getProp body ''date'';
          exs = getProp body ''exercises'';
          workoutId = getProp body ''workoutId''
      in if \<not> truthy date \<or> \<not> truthy exs \<or> \<not> truthy workoutId
         then (Failure 400 ''Missing required fields'', db)
         else (case (date, workoutId) of
                 (Some d, Some w) \<Rightarrow>
                   (case createWorkoutLog db uid (parseInt (jsToString w)) (newDate rt d) exs of
                      None \<Rightarrow> (Failure 500 ''Failed to log workout'', db)
                    | Some (workoutLog, db') \<Rightarrow> (Success workoutLog, db'))
               | _ \<Rightarrow> (Failure 400 ''Missing required fields'', db)))"

text \<open>\<^verbatim>\<open>GET /:id/logs\<close> (lines 139 to 154).\<close>

definition orderByDateDesc :: "WorkoutLog list \<Rightarrow> WorkoutLog list" where
  "orderByDateDesc ls = sort_key (\<lambda>l. - l_date l) ls"

definition getWorkoutLogs :: "database \<Rightarrow> int \<Rightarrow> string \<Rightarrow> WorkoutLog list reply" where
  "getWorkoutLogs db uid idParam =
     (case parseInt idParam of
        None \<Rightarrow> Failure 500 ''Failed to fetch workout logs''
      | Some wid \<Rightarrow>
          Success (orderByDateDesc
            (filter (\<lambda>l. l_workoutId l = wid \<and> l_userId l = uid) (db_logs db))))"

text \<open>
  The three deletions of the store that the two \<^verbatim>\<open>DELETE /:id\<close> routes call.
  \<^verbatim>\<open>deleteMany\<close> deletes the rows of a workout, however many.
  \<^verbatim>\<open>workout.delete\<close> throws (\<open>None\<close>) when no workout has the id, and when an
  exercise or a log still refers to the workout: the foreign keys restrict the delete.
\<close>

definition deleteManyExercises :: "int \<Rightarrow> database \<Rightarrow> database" where
  "deleteManyExercises wid db =
     db\<lparr>db_exercises := filter (\<lambda>e. ex_workoutId e \<noteq> wid) (db_exercises db)\<rparr>"

definition deleteManyLogs :: "int \<Rightarrow> database \<Rightarrow> database" where
  "deleteManyLogs wid db =
     db\<lparr>db_logs := filter (\<lambda>l. l_workoutId l \<noteq> wid) (db_logs db)\<rparr>"

definition deleteWorkoutRow :: "int \<Rightarrow> database \<Rightarrow> database option" where
  "deleteWorkoutRow wid db =
     (if find (\<lambda>w. w_id w = wid) (db_workouts db) = None
         \<or> find (\<lambda>e. ex_workoutId e = wid) (db_exercises db) \<noteq> None
         \<or> find (\<lambda>l. l_workoutId l = wid) (db_logs db) \<noteq> None
      then None
      else Some (db\<lparr>db_workouts := filter (\<lambda>w. w_id w \<noteq> wid) (db_workouts db)\<rparr>))"

text \<open>
  \<^verbatim>\<open>DELETE /:id\<close> of \<^verbatim>\<open>workouts.ts\<close> (lines 157 to 175): two calls of the store, one
  after the other, each committed when it returns. When the second throws, what the
  first deleted stays deleted.
\<close>

definition deleteWorkout :: "database \<Rightarrow> string \<Rightarrow> string reply \<times> database" where
  "deleteWorkout db idParam =
     (case parseInt idParam of
        None \<Rightarrow> (Failure 500 ''Failed to delete workout'', db)
      | Some wid \<Rightarrow>
          (let db1 = deleteManyExercises wid db
           in case deleteWorkoutRow wid db1 of
                None \<Rightarrow> (Failure 500 ''Failed to delete workout'', db1)
              | Some db2 \<Rightarrow> (Success ''Workout deleted successfully'', db2)))"

text \<open>
  \<^verbatim>\<open>prisma.$transaction([...])\<close>: the operations run in order on the store, and the
  store keeps their effect only when none of them throws.
\<close>

definition transaction :: "(database \<Rightarrow> database option) list \<Rightarrow> database \<Rightarrow> database option" where
  "transaction ops db = foldl (\<lambda>acc op. Option.bind acc op) (Some db) ops"

text \<open>
  \<^verbatim>\<open>DELETE /:id\<close> of the other workout router in the repository (lines 285 to 320 of
  \<^verbatim>\<open>auth.ts\<close>): the workout must be the caller's, and the three deletions are one
  transaction.
\<close>

definition deleteWorkoutTransactional ::
  "database \<Rightarrow> int \<Rightarrow> string \<Rightarrow> string reply \<times> database" where
  "deleteWorkoutTransactional db uid idParam =
     (case parseInt idParam of
        None \<Rightarrow> (Failure 500 ''Failed to delete workout'', db)
      | Some workoutId \<Rightarrow>
          (case findFirst (\<lambda>w. w_id w = workoutId \<and> w_userId w = uid) (db_workouts db) of
             None \<Rightarrow> (Failure 404 ''Workout not found'', db)
           | Some workout \<Rightarrow>
               (case transaction
                       [\<lambda>d. Some (deleteManyLogs workoutId d),
                        \<lambda>d. Some (deleteManyExercises workoutId d),
                        deleteWorkoutRow workoutId] db of
                  None \<Rightarrow> (Failure 500 ''Failed to delete workout'', db)
                | Some db' \<Rightarrow> (Success ''Workout deleted successfully'', db'))))"

text \<open>
  \<^verbatim>\<open>GET /week/:date\<close> (lines 192 to 252). The body of the loop is \<open>weekDayEntry\<close>,
  for \<open>i\<close> from 0 to 6; an entry is the reply of the day route with the workout's
  \<^verbatim>\<open>id\<close> added. \<^verbatim>\<open>x || y\<close> is \<open>y\<close> when \<open>x\<close> is \<^verbatim>\<open>undefined\<close>, 0 or the empty
  string.
\<close>

record WeekEntry = DayResponse +
  r_id :: "int option"

definition weekDayEntry :: "runtime \<Rightarrow> database \<Rightarrow> int \<Rightarrow> int \<Rightarrow> nat \<Rightarrow> WeekEntry" where
  "weekDayEntry rt db uid startDate i =
     (let currentDate = setDate rt startDate (getDate rt startDate + int i);
          dayOfWeek = getDay rt (Some currentDate);
          workout = findFirst (scheduledWhere uid dayOfWeek) (db_workouts db)
      in \<lparr>r_date = isoDate currentDate,
          r_category = (case workout of None \<Rightarrow> ''Rest''
                        | Some w \<Rightarrow> (if w_category w = [] then ''Rest'' else w_category w)),
          r_exercises = (case workout of None \<Rightarrow> [] | Some w \<Rightarrow> exercisesOf db w),
          r_id = (case workout of None \<Rightarrow> None
                  | Some w \<Rightarrow> (if w_id w = 0 then None else Some (w_id w)))\<rparr>)"

definition getWeekWorkouts ::
  "runtime \<Rightarrow> database \<Rightarrow> int \<Rightarrow> string \<Rightarrow> WeekEntry list reply" where
  "getWeekWorkouts rt db uid date =
     (if \<not> dateRegexTest date
      then Failure 400 ''Invalid date format. Please use YYYY-MM-DD format.''
      else (case parseDateString rt date of
              None \<Rightarrow> Failure 400 ''Invalid date. Please provide a valid date.''
            | Some t \<Rightarrow>
                (let startDate = setUTCHours t 0 0 0 0
                 in Success (map (weekDayEntry rt db uid startDate) [0..<7]))))"

text \<open>
  \<^verbatim>\<open>GET /logs/:date\<close> (lines 277 to 321). A date that does not parse reaches the
  store as an Invalid Date, which it refuses. Each log comes with the name and the
  category of its workout.
\<close>

record LogWithWorkout =
  lw_log :: WorkoutLog
  lw_workout :: "(string \<times> string) option"

definition getLogsForDate ::
  "runtime \<Rightarrow> database \<Rightarrow> int \<Rightarrow> string \<Rightarrow> LogWithWorkout list reply" where
  "getLogsForDate rt db uid date =
     (if \<not> dateRegexTest date
      then Failure 400 ''Invalid date format. Please use YYYY-MM-DD format.''
      else (case parseDateString rt date of
              None \<Rightarrow> Failure 500 ''Failed to fetch workout logs''
            | Some t \<Rightarrow>
                (let targetDate = setHours rt t 0 0 0 0;
                     endDate = setHours rt targetDate 23 59 59 999;
                     logs = orderByDateDesc
                       (filter (\<lambda>l. l_userId l = uid \<and> targetDate \<le> l_date l \<and> l_date l \<le> endDate)
                          (db_logs db))
                 in Success
                      (map (\<lambda>l. \<lparr>lw_log = l,
                                  lw_workout = map_option (\<lambda>w. (w_name w, w_category w))
                                    (find (\<lambda>w. w_id w = l_workoutId l) (db_workouts db))\<rparr>)
                         logs))))"

text \<open>\<^verbatim>\<open>GET /logs?date=\<close> (lines 255 to 274); the query may have no date.\<close>

definition getLogs ::
  "runtime \<Rightarrow> database \<Rightarrow> int \<Rightarrow> string option \<Rightarrow> WorkoutLog list reply" where
  "getLogs rt db uid dateQuery =
     (case Option.bind dateQuery (parseDateString rt) of
        None \<Rightarrow> Failure 500 ''Failed to fetch workout logs''
      | Some t \<Rightarrow>
          (let startOfDay = setHours rt t 0 0 0 0;
               endOfDay = setHours rt startOfDay 23 59 59 999
           in Success
                (filter (\<lambda>l. l_userId l = uid \<and> startOfDay \<le> l_date l \<and> l_date l \<le> endOfDay)
                   (db_logs db))))"

section \<open>Example data\<close>

text \<open>
  A store with one workout of user 1, scheduled weekly on Friday (weekday 5), with
  one exercise; a second workout of the same user that is daily; the results of one
  session; two request bodies for \<^verbatim>\<open>POST /\<close>.
\<close>

definition emptyDb :: database where
  "emptyDb = \<lparr>db_workouts = [], db_exercises = [], db_logs = [],
     workoutSeq = 0, exerciseSeq = 0, logSeq = 0\<rparr>"

definition benchPress :: Exercise where
  "benchPress = \<lparr>ex_id = 1, ex_name = ''Bench'', ex_sets = 3, ex_reps = 10, ex_weight = Whole 80,
     ex_progress = 0, ex_notes = None, ex_workoutId = 1\<rparr>"

definition fridayWorkout :: Workout where
  "fridayWorkout = \<lparr>w_id = 1, w_name = ''Push day'', w_category = ''Push'', w_userId = 1,
     w_scheduleType = ''weekly'', w_scheduleDays = ''5'', w_frequency = 1, w_createdAt = 0\<rparr>"

definition dailyWorkout :: Workout where
  "dailyWorkout = \<lparr>w_id = 2, w_name = ''Stretch'', w_category = ''Legs'', w_userId = 1,
     w_scheduleType = ''daily'', w_scheduleDays = [], w_frequency = 7, w_createdAt = 0\<rparr>"

definition exampleDb :: database where
  "exampleDb = \<lparr>db_workouts = [fridayWorkout], db_exercises = [benchPress], db_logs = [],
     workoutSeq = 1, exerciseSeq = 1, logSeq = 0\<rparr>"

definition benchResult :: json where
  "benchResult =
     JArr [JObj [(''name'', JStr ''Bench''), (''sets'', JNum 3), (''reps'', JNum 10),
                 (''weight'', JNum 80)]]"

definition loggedSession :: "int \<Rightarrow> int \<Rightarrow> WorkoutLog" where
  "loggedSession n t =
     \<lparr>l_id = n, l_userId = 1, l_workoutId = 1, l_date = t, l_exercises = benchResult\<rparr>"

definition dailyBody :: json where
  "dailyBody =
     JObj [(''name'', JStr ''Stretch''), (''category'', JStr ''Legs''), (''exercises'', JArr []),
           (''schedule'', JObj [(''type'', JStr ''daily''), (''days'', JArr []),
                                (''frequency'', JNum 7)])]"

text \<open>
  A workout whose stored days are those of the list \<open>[10]\<close>; a store with two workouts
  of user 1; a store with two logged sessions of user 1, at 2024-03-14T15:00Z and at
  2024-03-15T15:00Z; the entry of a rest day; a body for \<^verbatim>\<open>POST /\<close> with a weekly
  schedule on the days 9, 9 and -1, and one with a weekly schedule on no day.
\<close>

definition tenWorkout :: Workout where
  "tenWorkout = \<lparr>w_id = 3, w_name = ''Ten'', w_category = ''Pull'', w_userId = 1,
     w_scheduleType = ''weekly'', w_scheduleDays = serializeDays [10], w_frequency = 1, w_createdAt = 0\<rparr>"

definition twoWorkoutsDb :: database where
  "twoWorkoutsDb = exampleDb\<lparr>db_workouts := [fridayWorkout, dailyWorkout], workoutSeq := 2\<rparr>"

definition loggedDb :: database where
  "loggedDb = exampleDb\<lparr>db_logs := [loggedSession 1 1710428400000, loggedSession 2 1710514800000], logSeq := 2\<rparr>"

definition restEntry :: "string \<Rightarrow> WeekEntry" where
  "restEntry d = \<lparr>r_date = d, r_category = ''Rest'', r_exercises = [], r_id = None\<rparr>"

definition oddWeeklyBody :: json where
  "oddWeeklyBody =
     JObj [(''name'', JStr ''Odd''), (''category'', JStr ''Pull''), (''exercises'', JArr []),
           (''schedule'', JObj [(''type'', JStr ''weekly''), (''days'', JArr [JNum 9, JNum 9, JNum (- 1)]),
                                (''frequency'', JNum 1)])]"

definition emptyWeeklyBody :: json where
  "emptyWeeklyBody =
     JObj [(''name'', JStr ''Never''), (''category'', JStr ''Pull''), (''exercises'', JArr []),
           (''schedule'', JObj [(''type'', JStr ''weekly''), (''days'', JArr []),
                                (''frequency'', JNum 1)])]"

text \<open>A body for \<^verbatim>\<open>POST /\<close> whose schedule has a type that is not a literal of the schema.\<close>

definition monthlyBody :: json where
  "monthlyBody =
     JObj [(''name'', JStr ''Monthly''), (''category'', JStr ''Pull''), (''exercises'', JArr []),
           (''schedule'', JObj [(''type'', JStr ''monthly''), (''days'', JArr [JNum 1]),
                                (''frequency'', JNum 1)])]"

text \<open>The decimal digits of a natural number, most significant first.\<close>

fun natDigits :: "nat \<Rightarrow> nat list" where
  "natDigits n = (if n < 10 then [n] else natDigits (n div 10) @ [n mod 10])"

declare natDigits.simps [simp del]

section \<open>Properties of the weekday encoding\<close>

lemma parseInt_empty: "parseInt [] = None"
  by (simp add: parseInt_def)

lemma of_char_digitChar: "d < 10 \<Longrightarrow> (of_char (digitChar d) :: nat) = 48 + d"
  by (simp add: digitChar_def)

lemma digitValue_digitChar: "d < 10 \<Longrightarrow> digitValue (digitChar d) = Some d"
  by (simp add: digitValue_def of_char_digitChar Let_def)

lemma digitChar_neq:
  assumes "d < 10"
  shows "digitChar d \<noteq> CHR '',''" "digitChar d \<noteq> CHR ''-''" "digitChar d \<noteq> CHR ''+''"
    "digitChar d \<noteq> CHR ''x''" "digitChar d \<noteq> CHR ''X''" "\<not> isWhiteSpace (digitChar d)"
proof -
  have n: "(of_char (digitChar d) :: nat) = 48 + d" using assms by (rule of_char_digitChar)
  show "digitChar d \<noteq> CHR '',''" using n by auto
  show "digitChar d \<noteq> CHR ''-''" using n by auto
  show "digitChar d \<noteq> CHR ''+''" using n by auto
  show "digitChar d \<noteq> CHR ''x''" using n assms by auto
  show "digitChar d \<noteq> CHR ''X''" using n assms by auto
  show "\<not> isWhiteSpace (digitChar d)" using n by (auto simp: isWhiteSpace_def)
qed

lemma natToString_natDigits: "natToString n = map digitChar (natDigits n)"
  by (induction n rule: natDigits.induct) (subst natToString.simps, subst natDigits.simps, simp)

lemma natDigits_lt: "d \<in> set (natDigits n) \<Longrightarrow> d < 10"
  by (induction n rule: natDigits.induct) (subst (asm) natDigits.simps, auto split: if_splits)

lemma natDigits_nonempty: "natDigits n \<noteq> []"
  by (subst natDigits.simps) simp

lemma digitsValue_natDigits: "digitsValue 10 (natDigits n) = n"
  by (induction n rule: natDigits.induct)
     (subst natDigits.simps, simp add: digitsValue_def)

lemma leadingDigits_digits:
  "(\<And>d. d \<in> set ds \<Longrightarrow> d < 10) \<Longrightarrow> leadingDigits 10 (map digitChar ds) = ds"
  by (induction ds) (simp_all add: digitValue_digitChar)

lemma parseInt_plain:
  assumes "s \<noteq> []" "\<not> isWhiteSpace (hd s)" "hd s \<noteq> CHR ''-''" "hd s \<noteq> CHR ''+''"
    and "take 2 s \<noteq> ''0x''" "take 2 s \<noteq> ''0X''"
    and "leadingDigits 10 s \<noteq> []"
  shows "parseInt s = Some (int (digitsValue 10 (leadingDigits 10 s)))"
proof -
  have dw: "dropWhile isWhiteSpace s = s"
    using assms(1,2) by (cases s) auto
  show ?thesis
    unfolding parseInt_def dw Let_def using assms by simp
qed

lemma parseInt_minus:
  assumes "s \<noteq> []" "take 2 s \<noteq> ''0x''" "take 2 s \<noteq> ''0X''" "leadingDigits 10 s \<noteq> []"
  shows "parseInt (CHR ''-'' # s) = Some (- int (digitsValue 10 (leadingDigits 10 s)))"
proof -
  have ws: "\<not> isWhiteSpace CHR ''-''" by (simp add: isWhiteSpace_def)
  show ?thesis
    unfolding parseInt_def Let_def using assms ws by simp
qed

lemma natToString_shape:
  "natToString n \<noteq> []" "\<not> isWhiteSpace (hd (natToString n))"
  "hd (natToString n) \<noteq> CHR ''-''" "hd (natToString n) \<noteq> CHR ''+''"
  "take 2 (natToString n) \<noteq> ''0x''" "take 2 (natToString n) \<noteq> ''0X''"
  "leadingDigits 10 (natToString n) = natDigits n"
proof -
  obtain d ds where ds: "natDigits n = d # ds"
    using natDigits_nonempty [of n] by (cases "natDigits n") auto
  have lt: "\<And>x. x \<in> set (d # ds) \<Longrightarrow> x < 10"
    using natDigits_lt [of _ n] ds by simp
  have d: "d < 10" using lt by simp
  have s: "natToString n = digitChar d # map digitChar ds"
    by (simp add: natToString_natDigits ds)
  show "natToString n \<noteq> []" by (simp add: s)
  show "\<not> isWhiteSpace (hd (natToString n))" using digitChar_neq(6) [OF d] by (simp add: s)
  show "hd (natToString n) \<noteq> CHR ''-''" using digitChar_neq(2) [OF d] by (simp add: s)
  show "hd (natToString n) \<noteq> CHR ''+''" using digitChar_neq(3) [OF d] by (simp add: s)
  show "take 2 (natToString n) \<noteq> ''0x''"
  proof (cases ds)
    case Nil then show ?thesis by (simp add: s)
  next
    case (Cons e es)
    then have "e < 10" using lt by simp
    then show ?thesis using digitChar_neq(4) [of e] Cons by (simp add: s)
  qed
  show "take 2 (natToString n) \<noteq> ''0X''"
  proof (cases ds)
    case Nil then show ?thesis by (simp add: s)
  next
    case (Cons e es)
    then have "e < 10" using lt by simp
    then show ?thesis using digitChar_neq(5) [of e] Cons by (simp add: s)
  qed
  show "leadingDigits 10 (natToString n) = natDigits n"
    unfolding natToString_natDigits using leadingDigits_digits [of "natDigits n"] natDigits_lt [of _ n]
    by blast
qed

lemma parseInt_natToString: "parseInt (natToString n) = Some (int n)"
  using parseInt_plain [OF natToString_shape(1-6), of n]
  by (simp add: natToString_shape(7) natDigits_nonempty digitsValue_natDigits)

lemma parseInt_toString: "parseInt (toString i) = Some i"
proof (cases "i < 0")
  case True
  have "parseInt (CHR ''-'' # natToString (nat (- i))) = Some (- int (nat (- i)))"
    using parseInt_minus [OF natToString_shape(1,5,6), of "nat (- i)"]
    by (simp add: natToString_shape(7) natDigits_nonempty digitsValue_natDigits)
  then show ?thesis using True by (simp add: toString_def)
next
  case False
  then show ?thesis by (simp add: toString_def parseInt_natToString)
qed

lemma comma_notin_toString: "CHR '','' \<notin> set (toString i)"
proof -
  have "CHR '','' \<notin> set (natToString n)" for n
  proof
    assume "CHR '','' \<in> set (natToString n)"
    then obtain d where "d \<in> set (natDigits n)" "CHR '','' = digitChar d"
      by (auto simp: natToString_natDigits)
    then show False using natDigits_lt [of d n] digitChar_neq(1) [of d] by simp
  qed
  then show ?thesis by (simp add: toString_def)
qed

lemma split_no_sep: "sep \<notin> set x \<Longrightarrow> split sep (x @ sep # rest) = x # split sep rest"
  by (induction x) auto

lemma split_no_sep_end: "sep \<notin> set x \<Longrightarrow> split sep x = [x]"
  by (induction x) auto

lemma split_join:
  "xs \<noteq> [] \<Longrightarrow> (\<And>x. x \<in> set xs \<Longrightarrow> CHR '','' \<notin> set x) \<Longrightarrow> split CHR '','' (join '','' xs) = xs"
proof (induction "'',''" xs rule: join.induct)
  case 1 then show ?case by simp
next
  case (2 x) then show ?case by (simp add: split_no_sep_end)
next
  case (3 x y ys)
  then show ?case using split_no_sep [of "CHR '',''" x "join '','' (y # ys)"] by simp
qed

lemma parseDays_serializeDays: "ds \<noteq> [] \<Longrightarrow> parseDays (serializeDays ds) = map Some ds"
proof -
  assume ne: "ds \<noteq> []"
  have "split CHR '','' (join '','' (map toString ds)) = map toString ds"
    using ne by (intro split_join) (auto simp: comma_notin_toString)
  then show ?thesis
    by (simp add: parseDays_def serializeDays_def parseInt_toString comp_def)
qed


text \<open>
  Claim C9. Serializing a list of weekday integers to the stored comma-separated
  string and parsing it back is to give the list again. On the empty list it does
  not: the stored string is empty, and it parses to the one-element list holding
  \<open>NaN\<close>. (Every list that is not empty does come back: \<open>parseDays_serializeDays\<close>.)
\<close>

theorem roundtrip_fails_on_empty_days:
  "serializeDays [] = [] \<and> parseDays (serializeDays []) = [None] \<and> parseDays (serializeDays []) \<noteq> map Some []"
  by (simp add: serializeDays_def parseDays_def parseInt_empty)


text \<open>
  The days that \<^verbatim>\<open>POST /\<close> stores for a list of integers are those of
  \<open>serializeDays\<close>, and a stored empty string is read as the one-element array
  \<open>[NaN]\<close>.
\<close>

lemma stored_days_of_integers:
  "join '','' (map decimalToString (map Whole ds)) = serializeDays ds"
  by (simp add: serializeDays_def decimalToString_def comp_def)

lemma empty_scheduleDays_parsed:
  "w_scheduleDays w = [] \<Longrightarrow> v_days (parseWorkoutScheduleDays w exs) = [None]"
  by (simp add: parseWorkoutScheduleDays_def parseInt_empty)

text \<open>
  Claim C10. A workout created with an empty \<open>days\<close> array is stored with the empty
  string in \<open>scheduleDays\<close>, and what reads it through
  \<^verbatim>\<open>parseWorkoutScheduleDays\<close>, the reply of \<^verbatim>\<open>POST /\<close> and the list of
  \<^verbatim>\<open>GET /\<close>, has its days as the one-element array \<open>[NaN]\<close>, not the empty array;
  \<^verbatim>\<open>res.json\<close> writes that array as \<^verbatim>\<open>[null]\<close>. This is of a request whose
  creation succeeds: one that the schema accepts and the store refuses is answered 500
  and nothing is stored.
\<close>

theorem empty_days_read_back_as_NaN:
  assumes "workoutSchema body = Inr workoutData" and "s_days (wi_schedule workoutData) = []"
    and "createWorkout rt db uid body = (Success view, db')"
  shows "w_scheduleDays (v_workout view) = [] \<and> v_days view = [None]
          \<and> daysJson (v_days view) = JArr [JNull]
          \<and> (\<exists>views. getWorkouts db' uid = Success views \<and> view \<in> set views)"
proof -
  obtain workout where created: "workoutCreate rt db uid workoutData = Some (workout, db')"
    and view: "view = parseWorkoutScheduleDays workout (exercisesOf db' workout)"
    using assms(1,3) by (auto simp: createWorkout_def split: option.splits)
  have stored: "w_scheduleDays workout = []" and owner: "w_userId workout = uid"
    and row: "db_workouts db' = db_workouts db @ [workout]"
    using created assms(2)
    by (auto simp: workoutCreate_def Let_def split: option.splits)
  have days: "v_days view = [None]"
    unfolding view using stored by (rule empty_scheduleDays_parsed)
  have "workout \<in> set (filter (\<lambda>w. w_userId w = uid) (db_workouts db'))"
    using owner row by simp
  then have listed: "view \<in> set (map (\<lambda>w. parseWorkoutScheduleDays w (exercisesOf db' w))
      (filter (\<lambda>w. w_userId w = uid) (db_workouts db')))"
    unfolding view set_map by (rule imageI)
  have "w_scheduleDays (v_workout view) = []"
    using stored by (simp add: view parseWorkoutScheduleDays_def)
  then show ?thesis
    using days listed by (simp add: getWorkouts_def daysJson_def)
qed

lemma dailyBody_created:
  "workoutSchema dailyBody = Inr \<lparr>wi_name = ''Stretch'', wi_category = ''Legs'', wi_exercises = [],
     wi_schedule = \<lparr>s_type = ''daily'', s_days = [], s_frequency = Whole 7\<rparr>\<rparr>"
  "status (fst (createWorkout (fixedZone 0 0) emptyDb 1 dailyBody)) = 200"
  "case fst (createWorkout (fixedZone 0 0) emptyDb 1 dailyBody) of
     Success v \<Rightarrow> True | Invalid is \<Rightarrow> False | Failure c m \<Rightarrow> False"
  by code_simp+

theorem empty_days_read_back_as_NaN_witness:
  "status (fst (createWorkout (fixedZone 0 0) emptyDb 1 dailyBody)) = 200
   \<and> (\<exists>view db'. createWorkout (fixedZone 0 0) emptyDb 1 dailyBody = (Success view, db')
          \<and> w_scheduleDays (v_workout view) = [] \<and> v_days view = [None]
          \<and> daysJson (v_days view) = JArr [JNull]
          \<and> (\<exists>views. getWorkouts db' 1 = Success views \<and> view \<in> set views))"
proof -
  obtain view db' where c: "createWorkout (fixedZone 0 0) emptyDb 1 dailyBody = (Success view, db')"
    using dailyBody_created(3)
    by (cases "createWorkout (fixedZone 0 0) emptyDb 1 dailyBody";
        cases "fst (createWorkout (fixedZone 0 0) emptyDb 1 dailyBody)") auto
  show ?thesis
    using empty_days_read_back_as_NaN [OF dailyBody_created(1) _ c] c dailyBody_created(2)
    by (simp add: daysJson_def)
qed

section \<open>Schedule matching and day resolution\<close>

text \<open>
  The filter accepts every daily workout of the caller. Of a weekly workout whose
  stored days are those of a list of weekdays from 0 to 6, it accepts those that have
  the weekday in the list; and in a process whose time zone is UTC the weekday that
  \<^verbatim>\<open>getDay()\<close> reads is the weekday in UTC.
\<close>

lemma daily_workout_matches:
  "w_userId w = uid \<Longrightarrow> w_scheduleType w = ''daily'' \<Longrightarrow> scheduledWhere uid dayOfWeek w"
  by (simp add: scheduledWhere_def)

lemma contains_single: "contains s [c] \<longleftrightarrow> c \<in> set s"
  by (induction s) auto

lemma set_join_no_comma:
  "c \<noteq> CHR '','' \<Longrightarrow> c \<in> set (join '','' xs) \<longleftrightarrow> (\<exists>x \<in> set xs. c \<in> set x)"
  by (induction "'',''" xs rule: join.induct) auto

lemma toString_weekday: "0 \<le> d \<Longrightarrow> d \<le> 6 \<Longrightarrow> toString d = [digitChar (nat d)]"
  by (simp add: toString_def natToString.simps)

lemma digitChar_inj:
  assumes "a < 10" and "b < 10" and "digitChar a = digitChar b"
  shows "a = b"
proof -
  have "(48 :: nat) + a = of_char (digitChar a)" using assms(1) by (simp add: of_char_digitChar)
  also have "\<dots> = of_char (digitChar b)" by (simp only: assms(3))
  also have "\<dots> = 48 + b" using assms(2) by (simp add: of_char_digitChar)
  finally show ?thesis by simp
qed

lemma weekly_workout_matches_iff_member:
  assumes "w_scheduleType w = ''weekly''" and "w_scheduleDays w = serializeDays ds"
    and days: "\<And>d. d \<in> set ds \<Longrightarrow> 0 \<le> d \<and> d \<le> 6" and k: "0 \<le> k" "k \<le> 6"
  shows "scheduledWhere uid (Some k) w \<longleftrightarrow> w_userId w = uid \<and> k \<in> set ds"
proof -
  have nc: "digitChar (nat k) \<noteq> CHR '',''"
    using digitChar_neq(1) [of "nat k"] k by simp
  have "contains (serializeDays ds) (toString k) \<longleftrightarrow> (\<exists>d \<in> set ds. digitChar (nat k) \<in> set (toString d))"
    using k by (simp add: toString_weekday contains_single serializeDays_def set_join_no_comma [OF nc])
  also have "\<dots> \<longleftrightarrow> (\<exists>d \<in> set ds. digitChar (nat k) = digitChar (nat d))"
    using days by (auto simp: toString_weekday)
  also have "\<dots> \<longleftrightarrow> k \<in> set ds"
  proof
    assume "\<exists>d \<in> set ds. digitChar (nat k) = digitChar (nat d)"
    then obtain d where d: "d \<in> set ds" "digitChar (nat k) = digitChar (nat d)" by auto
    have "nat k < 10" "nat d < 10" using days [OF d(1)] k by auto
    then have "nat k = nat d" using d(2) by (rule digitChar_inj)
    then have "k = d" using days [OF d(1)] k by linarith
    then show "k \<in> set ds" using d(1) by simp
  qed auto
  finally show ?thesis
    using assms(1,2) by (simp add: scheduledWhere_def numberToString_def)
qed

lemma getDay_UTC:
  "offsetAtUTC rt = (\<lambda>t. 0) \<Longrightarrow> getDay rt (Some t) = Some (WeekDay t) \<and> 0 \<le> WeekDay t \<and> WeekDay t \<le> 6"
  by (simp add: getDay_def LocalTime_def WeekDay_def)

text \<open>
  Claim C1. A daily workout matches every date, and a weekly workout matches a date
  exactly when the weekday of the date, computed in UTC, is one of its scheduled
  weekdays. The routes read the weekday with \<^verbatim>\<open>getDay()\<close>, in the time zone of the
  server: three hours west of UTC, 2024-03-15, a Friday, is read as a Thursday, and a
  workout scheduled on Fridays is not found on it, but is found on the Saturday.
\<close>

theorem weekday_read_in_local_time:
  "isoDateOnly ''2024-03-15'' = Some 1710460800000
   \<and> WeekDay 1710460800000 = 5
   \<and> parseDays (w_scheduleDays fridayWorkout) = [Some 5]
   \<and> getWorkoutForDate (fixedZone (- 180) 0) exampleDb 1 ''2024-03-15''
       = Success \<lparr>r_date = ''2024-03-15'', r_category = ''Rest'', r_exercises = []\<rparr>
   \<and> getWorkoutForDate (fixedZone (- 180) 0) exampleDb 1 ''2024-03-16''
       = Success \<lparr>r_date = ''2024-03-16'', r_category = ''Push'', r_exercises = [benchPress]\<rparr>"
  by code_simp

text \<open>
  The filter tests the stored string for the digit of the weekday, which is membership
  only while every stored day is a single digit: stored days \<open>[10]\<close> are found on a
  Monday (weekday 1), in UTC.
\<close>

lemma weekday_matched_as_substring:
  "isoDateOnly ''2024-03-11'' = Some 1710115200000
   \<and> WeekDay 1710115200000 = 1
   \<and> parseDays (w_scheduleDays tenWorkout) = [Some 10]
   \<and> getWorkoutForDate (fixedZone 0 0) (exampleDb\<lparr>db_workouts := [tenWorkout]\<rparr>) 1 ''2024-03-11''
       = Success \<lparr>r_date = ''2024-03-11'', r_category = ''Pull'', r_exercises = []\<rparr>"
  by code_simp

text \<open>
  Among the workouts that the filter of the route accepts, the first in the order of
  the table is the one returned, which in a table ordered by id is the one with the
  least id; when the filter accepts none, the reply is the rest day.
\<close>

lemma route_filter_first_match:
  assumes "dayOfWeek = getDay rt (parseDateString rt date)" and "ws = db_workouts db"
  shows "((\<forall>w \<in> set ws. \<not> scheduledWhere uid dayOfWeek w) \<longrightarrow>
            getWorkoutForDate rt db uid date
              = Success \<lparr>r_date = date, r_category = ''Rest'', r_exercises = []\<rparr>
            \<and> (\<forall>startDate i. getDay rt (Some (setDate rt startDate (getDate rt startDate + int i))) = dayOfWeek \<longrightarrow>
                 weekDayEntry rt db uid startDate i
                  = \<lparr>r_date = isoDate (setDate rt startDate (getDate rt startDate + int i)),
                     r_category = ''Rest'', r_exercises = [], r_id = None\<rparr>))
       \<and> (\<forall>i < length ws.
            scheduledWhere uid dayOfWeek (ws ! i) \<and> (\<forall>j < i. \<not> scheduledWhere uid dayOfWeek (ws ! j)) \<longrightarrow>
            getWorkoutForDate rt db uid date
              = Success \<lparr>r_date = date, r_category = w_category (ws ! i),
                         r_exercises = exercisesOf db (ws ! i)\<rparr>)
       \<and> (sorted_wrt (<) (map w_id ws) \<longrightarrow>
            (\<forall>w. findFirst (scheduledWhere uid dayOfWeek) ws = Some w \<longrightarrow>
               (\<forall>w' \<in> set ws. scheduledWhere uid dayOfWeek w' \<longrightarrow> w_id w \<le> w_id w')))"
proof -
  let ?P = "scheduledWhere uid dayOfWeek"
  have rest: "getWorkoutForDate rt db uid date
          = Success \<lparr>r_date = date, r_category = ''Rest'', r_exercises = []\<rparr>
      \<and> (\<forall>startDate i. getDay rt (Some (setDate rt startDate (getDate rt startDate + int i))) = dayOfWeek \<longrightarrow>
                 weekDayEntry rt db uid startDate i
                  = \<lparr>r_date = isoDate (setDate rt startDate (getDate rt startDate + int i)),
                     r_category = ''Rest'', r_exercises = [], r_id = None\<rparr>)"
    if none: "\<forall>w \<in> set ws. \<not> ?P w"
  proof -
    have f: "findFirst ?P ws = None"
      using none by (simp add: findFirst_def find_None_iff)
    then show ?thesis
      using assms by (simp add: getWorkoutForDate_def weekDayEntry_def Let_def)
  qed
  have first: "getWorkoutForDate rt db uid date
              = Success \<lparr>r_date = date, r_category = w_category (ws ! i),
                         r_exercises = exercisesOf db (ws ! i)\<rparr>"
    if "i < length ws" and "?P (ws ! i)" and "\<forall>j < i. \<not> ?P (ws ! j)" for i
  proof -
    have "findFirst ?P ws = Some (ws ! i)"
      unfolding findFirst_def find_Some_iff using that by blast
    then show ?thesis
      using assms by (simp add: getWorkoutForDate_def)
  qed
  have least: "w_id w \<le> w_id w'"
    if sorted: "sorted_wrt (<) (map w_id ws)"
      and found: "findFirst ?P ws = Some w"
      and w': "w' \<in> set ws" "?P w'" for w w'
  proof -
    from found obtain i where i: "i < length ws" "w = ws ! i" "\<forall>j < i. \<not> ?P (ws ! j)"
      unfolding findFirst_def find_Some_iff by blast
    from w'(1) obtain k where k: "k < length ws" "w' = ws ! k"
      by (auto simp: in_set_conv_nth)
    have le: "i \<le> k" using i(3) k(2) w'(2) by (meson not_le_imp_less)
    show ?thesis
    proof (cases "i = k")
      case True then show ?thesis using i k by simp
    next
      case False
      then have "i < k" using le by simp
      then have "map w_id ws ! i < map w_id ws ! k"
        using sorted k(1) by (simp add: sorted_wrt_iff_nth_less)
      then show ?thesis using i k by simp
    qed
  qed
  show ?thesis
    using rest first least by blast
qed

text \<open>
  Claim C2. Day resolution returns the first workout, in the stable order of creation,
  whose schedule matches the date, and the rest day if none does. User 1 has two
  workouts: the first, id 1, weekly on Fridays, the second, id 2, daily. Both
  schedules match 2024-03-15, a Friday, so the first is to be returned. Three hours
  west of UTC the route takes the date for a Thursday, passes over the first workout
  and returns the second; in UTC it returns the first.
\<close>

theorem first_matching_workout_skipped:
  "map w_id (db_workouts twoWorkoutsDb) = [1, 2]
   \<and> map w_userId (db_workouts twoWorkoutsDb) = [1, 1]
   \<and> isoDateOnly ''2024-03-15'' = Some 1710460800000 \<and> WeekDay 1710460800000 = 5
   \<and> w_scheduleType fridayWorkout = ''weekly'' \<and> parseDays (w_scheduleDays fridayWorkout) = [Some 5]
   \<and> w_scheduleType dailyWorkout = ''daily''
   \<and> getWorkoutForDate (fixedZone (- 180) 0) twoWorkoutsDb 1 ''2024-03-15''
       = Success \<lparr>r_date = ''2024-03-15'', r_category = w_category dailyWorkout, r_exercises = []\<rparr>
   \<and> w_category dailyWorkout \<noteq> w_category fridayWorkout
   \<and> getWorkoutForDate (fixedZone 0 0) twoWorkoutsDb 1 ''2024-03-15''
       = Success \<lparr>r_date = ''2024-03-15'', r_category = w_category fridayWorkout,
                  r_exercises = [benchPress]\<rparr>"
  by code_simp

section \<open>The week\<close>

text \<open>
  The week route always answers seven entries, and in a time zone with one fixed
  offset their dates are the start date and the six days after it.
\<close>

lemma weekDayEntry_date_fixed_offset:
  assumes "offsetAtUTC rt = (\<lambda>t. c)" and "offsetAtLocal rt = (\<lambda>t. c)"
  shows "setDate rt t (getDate rt t + i) = t + i * msPerDay"
proof -
  have "MakeDate (MakeDayInMonthOf lt (DateFromTime lt + i)) (TimeWithinDay lt) = lt + i * msPerDay" for lt
    by (simp add: MakeDate_def MakeDayInMonthOf_def TimeWithinDay_def Day_def algebra_simps)
  then show ?thesis
    using assms by (simp add: setDate_def getDate_def LocalTime_def UTC_def Let_def)
qed

lemma week_has_seven_entries:
  "getWeekWorkouts rt db uid date = Success es \<Longrightarrow> length es = 7"
  by (auto simp: getWeekWorkouts_def Let_def split: if_splits option.splits)

lemma week_dates_fixed_offset:
  assumes "offsetAtUTC rt = (\<lambda>t. c)" and "offsetAtLocal rt = (\<lambda>t. c)"
    and "dateRegexTest date" and "parseDateString rt date = Some (n * msPerDay)"
  shows "\<exists>es. getWeekWorkouts rt db uid date = Success es
           \<and> map r_date es = map (\<lambda>i. isoDate ((n + int i) * msPerDay)) [0..<7]"
proof -
  have s: "setUTCHours (n * msPerDay) 0 0 0 0 = n * msPerDay"
    by (simp add: setUTCHours_def MakeDate_def MakeTime_def Day_def msPerDay_def)
  have d: "r_date (weekDayEntry rt db uid (n * msPerDay) i) = isoDate ((n + int i) * msPerDay)" for i
    using weekDayEntry_date_fixed_offset [OF assms(1,2), of "n * msPerDay" "int i"]
    by (simp add: weekDayEntry_def Let_def algebra_simps)
  show ?thesis
    using assms(3,4) by (simp add: getWeekWorkouts_def s d comp_def del: upt_Suc)
qed

text \<open>
  Claim C3. Week resolution returns seven entries with the dates start, start + 1, to
  start + 6, days without a workout as rest entries. The route steps through the days
  in local time (\<^verbatim>\<open>setDate\<close>, \<^verbatim>\<open>getDate\<close>) and prints the dates in UTC: in
  \<^verbatim>\<open>Europe/Berlin\<close>, the week from 2024-03-27 crosses the start of summer time, and
  the route answers 2024-03-31 twice and never 2024-04-02.
\<close>

theorem week_repeats_a_date_across_summer_time:
  "getWeekWorkouts (europeBerlin2024 0) emptyDb 1 ''2024-03-27''
     = Success (map restEntry [''2024-03-27'', ''2024-03-28'', ''2024-03-29'', ''2024-03-30'',
                               ''2024-03-31'', ''2024-03-31'', ''2024-04-01''])"
  by code_simp

section \<open>Deleting a workout\<close>

text \<open>
  The route with the transaction deletes the workout with its exercises and its logs,
  or nothing.
\<close>

lemma findFirst_SomeD: "findFirst P xs = Some x \<Longrightarrow> x \<in> set xs \<and> P x"
  by (auto simp: findFirst_def find_Some_iff)

lemma transaction_delete:
  assumes "find (\<lambda>w. w_id w = wid) (db_workouts db) \<noteq> None"
  shows "transaction [\<lambda>d. Some (deleteManyLogs wid d), \<lambda>d. Some (deleteManyExercises wid d),
           deleteWorkoutRow wid] db
         = Some (db\<lparr>db_workouts := filter (\<lambda>w. w_id w \<noteq> wid) (db_workouts db),
                    db_exercises := filter (\<lambda>e. ex_workoutId e \<noteq> wid) (db_exercises db),
                    db_logs := filter (\<lambda>l. l_workoutId l \<noteq> wid) (db_logs db)\<rparr>)"
  using assms
  by (simp add: transaction_def deleteManyLogs_def deleteManyExercises_def deleteWorkoutRow_def
      find_None_iff)

lemma deleteWorkoutTransactional_all_or_nothing:
  assumes "deleteWorkoutTransactional db uid idParam = (r, db')" and "parseInt idParam = Some wid"
  shows "(db' = db \<and> status r \<noteq> 200)
       \<or> (status r = 200
           \<and> filter (\<lambda>w. w_id w = wid) (db_workouts db') = []
           \<and> filter (\<lambda>e. ex_workoutId e = wid) (db_exercises db') = []
           \<and> filter (\<lambda>l. l_workoutId l = wid) (db_logs db') = [])"
proof (cases "findFirst (\<lambda>w. w_id w = wid \<and> w_userId w = uid) (db_workouts db)")
  case None
  then show ?thesis using assms by (auto simp: deleteWorkoutTransactional_def)
next
  case (Some w)
  then have "find (\<lambda>w. w_id w = wid) (db_workouts db) \<noteq> None"
    using findFirst_SomeD [OF Some] by (auto simp: find_None_iff)
  from transaction_delete [OF this] Some assms show ?thesis
    by (auto simp: deleteWorkoutTransactional_def filter_empty_conv)
qed

text \<open>
  Claim C4. Deleting a workout removes its exercises and its logs with it, all or
  nothing. \<^verbatim>\<open>DELETE /:id\<close> of \<^verbatim>\<open>workouts.ts\<close> never deletes the logs and runs its two
  deletions without a transaction: for a workout that has a logged session, the
  exercises are deleted, the deletion of the workout then fails on the foreign key of
  the logs, and the workout and its logs stay, without the exercises.
\<close>

theorem delete_leaves_partial_state:
  "deleteWorkout loggedDb ''1''
     = (Failure 500 ''Failed to delete workout'', loggedDb\<lparr>db_exercises := []\<rparr>)
   \<and> db_exercises loggedDb = [benchPress]
   \<and> db_workouts (loggedDb\<lparr>db_exercises := []\<rparr>) = [fridayWorkout]
   \<and> db_logs (loggedDb\<lparr>db_exercises := []\<rparr>) = [loggedSession 1 1710428400000, loggedSession 2 1710514800000]"
  by code_simp

section \<open>Logging a session\<close>

text \<open>
  \<^verbatim>\<open>POST /logs\<close> answers 400 when a required field is missing, and the row it stores
  has the date and the exercise results of the request; \<^verbatim>\<open>POST /:id/log\<close> stores the
  time of the server's clock.
\<close>

lemma truthy_Some: "truthy v \<Longrightarrow> \<exists>x. v = Some x"
  by (cases v) auto

lemma logWorkout_missing_field:
  "\<not> truthy (getProp body ''date'') \<or> \<not> truthy (getProp body ''exercises'')
     \<or> \<not> truthy (getProp body ''workoutId'')
   \<Longrightarrow> logWorkout rt db uid body = (Failure 400 ''Missing required fields'', db)"
  by (auto simp: logWorkout_def Let_def)

lemma logWorkout_client_date:
  assumes "logWorkout rt db uid body = (Success row, db')"
  shows "\<exists>d e. getProp body ''date'' = Some d \<and> newDate rt d = Some (l_date row)
           \<and> getProp body ''exercises'' = Some e \<and> l_exercises row = e
           \<and> l_userId row = uid \<and> db_logs db' = db_logs db @ [row]"
proof -
  have t: "truthy (getProp body ''date'')" "truthy (getProp body ''exercises'')"
    using assms by (auto simp: logWorkout_def Let_def split: if_splits)
  obtain d e where de: "getProp body ''date'' = Some d" "getProp body ''exercises'' = Some e"
    using truthy_Some [OF t(1)] truthy_Some [OF t(2)] by auto
  show ?thesis
    using assms t de
    by (auto simp: logWorkout_def Let_def createWorkoutLog_def
        split: if_splits option.splits prod.splits)
qed

lemma logWorkoutSession_server_clock:
  assumes "logWorkoutSession rt db uid idParam body = (Success row, db')"
  shows "l_date row = clock rt \<and> getProp body ''exercises'' = Some (l_exercises row)
           \<and> l_userId row = uid \<and> db_logs db' = db_logs db @ [row]"
  using assms
  by (auto simp: logWorkoutSession_def Let_def createWorkoutLog_def
      split: if_splits option.splits prod.splits)

text \<open>
  Claim C5. Both routes that log a session are to store the date the client sent, and
  to answer 400 when \<open>date\<close>, \<open>exercises\<close> or \<open>workoutId\<close> is missing.
  \<^verbatim>\<open>POST /:id/log\<close> does neither: at the server time 2026-11-02T10:00Z, a request
  with the date 2024-03-15 is stored with the server time, a request with no date is
  answered 200, and a request with no field at all is answered 500.
\<close>

theorem session_log_stamped_with_server_clock:
  "logWorkoutSession (fixedZone 0 1793613600000) exampleDb 1 ''1''
      (JObj [(''date'', JStr ''2024-03-15''), (''exercises'', benchResult)])
     = (Success \<lparr>l_id = 1, l_userId = 1, l_workoutId = 1, l_date = 1793613600000, l_exercises = benchResult\<rparr>,
        exampleDb\<lparr>db_logs := [\<lparr>l_id = 1, l_userId = 1, l_workoutId = 1, l_date = 1793613600000, l_exercises = benchResult\<rparr>], logSeq := 1\<rparr>)
   \<and> isoDateOnly ''2024-03-15'' = Some 1710460800000
   \<and> status (fst (logWorkoutSession (fixedZone 0 1793613600000) exampleDb 1 ''1''
        (JObj [(''exercises'', benchResult)]))) = 200
   \<and> logWorkoutSession (fixedZone 0 1793613600000) exampleDb 1 ''1'' (JObj [])
     = (Failure 500 ''Failed to log workout'', exampleDb)"
  by code_simp

text \<open>
  Claim C6. Logging a session is to check that the workout is the caller's, and to
  answer 404 and store nothing when it is absent or another user's. Neither route
  looks the workout up: user 2 logs a session on the workout of user 1 through both
  routes, and a workout that does not exist is refused by the foreign key only, with
  the answer 500.
\<close>

theorem log_created_for_foreign_workout:
  "w_userId fridayWorkout = 1
   \<and> logWorkout (fixedZone 0 1793613600000) exampleDb 2
      (JObj [(''date'', JStr ''2024-03-15''), (''exercises'', benchResult), (''workoutId'', JNum 1)])
     = (Success \<lparr>l_id = 1, l_userId = 2, l_workoutId = 1, l_date = 1710460800000, l_exercises = benchResult\<rparr>,
        exampleDb\<lparr>db_logs := [\<lparr>l_id = 1, l_userId = 2, l_workoutId = 1, l_date = 1710460800000, l_exercises = benchResult\<rparr>], logSeq := 1\<rparr>)
   \<and> logWorkoutSession (fixedZone 0 1793613600000) exampleDb 2 ''1'' (JObj [(''exercises'', benchResult)])
     = (Success \<lparr>l_id = 1, l_userId = 2, l_workoutId = 1, l_date = 1793613600000, l_exercises = benchResult\<rparr>,
        exampleDb\<lparr>db_logs := [\<lparr>l_id = 1, l_userId = 2, l_workoutId = 1, l_date = 1793613600000, l_exercises = benchResult\<rparr>], logSeq := 1\<rparr>)
   \<and> logWorkout (fixedZone 0 1793613600000) exampleDb 1
      (JObj [(''date'', JStr ''2024-03-15''), (''exercises'', benchResult), (''workoutId'', JNum 7)])
     = (Failure 500 ''Failed to log workout'', exampleDb)"
  by code_simp

theorem log_created_for_foreign_workout_witness:
  "status (fst (logWorkout (fixedZone 0 1793613600000) exampleDb 2
      (JObj [(''date'', JStr ''2024-03-15''), (''exercises'', benchResult), (''workoutId'', JNum 1)]))) = 200
   \<and> map l_userId (db_logs (snd (logWorkout (fixedZone 0 1793613600000) exampleDb 2
      (JObj [(''date'', JStr ''2024-03-15''), (''exercises'', benchResult), (''workoutId'', JNum 1)])))) = [2]
   \<and> map l_workoutId (db_logs (snd (logWorkout (fixedZone 0 1793613600000) exampleDb 2
      (JObj [(''date'', JStr ''2024-03-15''), (''exercises'', benchResult), (''workoutId'', JNum 1)])))) = [1]"
  using log_created_for_foreign_workout by (simp add: exampleDb_def)

section \<open>The logs of a date\<close>

text \<open>
  In a time zone with a fixed offset of zero or more (and less than a day) east of
  UTC, the logs of a date are the caller's logs of that local day, from its first to
  its last millisecond.
\<close>

lemma logs_window_fixed_offset:
  assumes "offsetAtUTC rt = (\<lambda>t. c)" and "offsetAtLocal rt = (\<lambda>t. c)"
    and c: "0 \<le> c" "c < msPerDay"
    and "dateRegexTest date" and "parseDateString rt date = Some (n * msPerDay)"
  shows "\<exists>r. getLogsForDate rt db uid date = Success r
           \<and> set (map lw_log r)
               = {l \<in> set (db_logs db). l_userId l = uid
                    \<and> n * msPerDay - c \<le> l_date l \<and> l_date l \<le> n * msPerDay - c + 86399999}"
proof -
  have day: "Day (n * msPerDay + c) = n" "Day (n * msPerDay) = n"
    using c by (simp_all add: Day_def msPerDay_def)
  have s: "setHours rt (n * msPerDay) 0 0 0 0 = n * msPerDay - c"
    using assms(1,2) day by (simp add: setHours_def LocalTime_def UTC_def MakeDate_def MakeTime_def)
  have e: "setHours rt (n * msPerDay - c) 23 59 59 999 = n * msPerDay - c + 86399999"
    using assms(1,2) day by (simp add: setHours_def LocalTime_def UTC_def MakeDate_def MakeTime_def)
  show ?thesis
    using assms(5,6)
    by (auto simp: getLogsForDate_def s e Let_def orderByDateDesc_def comp_def image_iff)
qed

text \<open>
  Claim C7. The logs of a date are the caller's logs from 00:00:00.000 to 23:59:59.999
  of that date, and none of the day before or after. The route parses the date as
  midnight UTC and moves it to midnight with \<^verbatim>\<open>setHours\<close>, in the time zone of the
  server: three hours west of UTC, the window of 2024-03-15 is the local day
  2024-03-14, so the log of 2024-03-14T15:00Z is returned and the log of
  2024-03-15T15:00Z is not.
\<close>

theorem logs_of_previous_day_returned:
  "isoDateOnly ''2024-03-15'' = Some 1710460800000
   \<and> isoDate 1710428400000 = ''2024-03-14'' \<and> isoDate (LocalTime (fixedZone (- 180) 0) 1710428400000) = ''2024-03-14''
   \<and> isoDate 1710514800000 = ''2024-03-15'' \<and> isoDate (LocalTime (fixedZone (- 180) 0) 1710514800000) = ''2024-03-15''
   \<and> getLogsForDate (fixedZone (- 180) 0) loggedDb 1 ''2024-03-15''
     = Success [\<lparr>lw_log = loggedSession 1 1710428400000, lw_workout = Some (''Push day'', ''Push'')\<rparr>]
   \<and> getLogs (fixedZone (- 180) 0) loggedDb 1 (Some ''2024-03-15'')
     = Success [loggedSession 1 1710428400000]"
  by code_simp

section \<open>Creating a workout\<close>

text \<open>
  What the schemas accept, and which issue they report for a value that is not as
  they say.
\<close>

lemma zString_Inr_iff: "zString p v = Inr s \<longleftrightarrow> v = Some (JStr s)"
  by (cases v) (auto simp: zString_def split: json.splits)

lemma zEnum_Inr_iff: "zEnum options p v = Inr s \<longleftrightarrow> v = Some (JStr s) \<and> s \<in> set options"
  by (cases v) (auto simp: zEnum_def split: json.splits)

lemma zNumber_Inr_iff: "zNumber p v = Inr x \<longleftrightarrow> Option.bind v numberOf = Some x"
  by (auto simp: zNumber_def split: option.splits)

lemma zEnum_fails:
  "\<not> (\<exists>s. v = Some (JStr s) \<and> s \<in> set options) \<Longrightarrow> zEnum options p v = Inl [p]"
  by (auto simp: zEnum_def split: option.splits json.splits)

lemma zNumber_fails: "Option.bind v numberOf = None \<Longrightarrow> zNumber p v = Inl [p]"
  by (simp add: zNumber_def)

lemma zArray_fails: "\<not> (\<exists>xs. v = Some (JArr xs)) \<Longrightarrow> zArray schema p v = Inl [p]"
  by (auto simp: zArray_def split: option.splits json.splits)

lemma collect_Inr: "collect rs = Inr xs \<Longrightarrow> rs = map Inr xs"
proof (induction rs arbitrary: xs)
  case Nil
  then show ?case by simp
next
  case (Cons r rs)
  then show ?case by (auto split: sum.splits)
qed

lemma collect_reports:
  "i < length rs \<Longrightarrow> rs ! i = Inl a \<Longrightarrow> \<exists>js. collect rs = Inl js \<and> set a \<subseteq> set js"
proof (induction rs arbitrary: i)
  case Nil
  then show ?case by simp
next
  case (Cons r rs)
  show ?case
  proof (cases i)
    case 0
    then show ?thesis using Cons.prems by (auto simp: issuesOf_def split: sum.splits)
  next
    case (Suc j)
    then obtain js where "collect rs = Inl js" "set a \<subseteq> set js"
      using Cons.IH [of j] Cons.prems by auto
    then show ?thesis by (auto simp: issuesOf_def split: sum.splits)
  qed
qed

lemma zArray_numbers_Inr:
  assumes "zArray zNumber p v = Inr ds"
  shows "\<exists>xs. v = Some (JArr xs) \<and> map numberOf xs = map Some ds"
proof -
  obtain xs where v: "v = Some (JArr xs)"
    using assms zArray_fails [of v zNumber p] by fastforce
  let ?rs = "map (\<lambda>(i, x). zNumber (p @ [Idx i]) (Some x)) (enumerate 0 xs)"
  have rs: "?rs = map Inr ds"
    using assms v by (intro collect_Inr) (simp add: zArray_def)
  have len: "length xs = length ds"
    using arg_cong [OF rs, of length] by simp
  have "numberOf (xs ! i) = Some (ds ! i)" if "i < length xs" for i
  proof -
    have "?rs ! i = zNumber (p @ [Idx i]) (Some (xs ! i))"
      using that by (simp add: nth_enumerate_eq)
    moreover have "?rs ! i = Inr (ds ! i)"
      using that len by (simp add: rs)
    ultimately have "zNumber (p @ [Idx i]) (Some (xs ! i)) = Inr (ds ! i)" by simp
    then show ?thesis by (simp add: zNumber_Inr_iff)
  qed
  then have "map numberOf xs = map Some ds"
    using len by (intro nth_equalityI) simp_all
  then show ?thesis using v by blast
qed

lemma zArray_numbers_reports:
  assumes "v = Some (JArr xs)" and "i < length xs" and "numberOf (xs ! i) = None"
  shows "\<exists>js. zArray zNumber p v = Inl js \<and> p @ [Idx i] \<in> set js"
proof -
  let ?rs = "map (\<lambda>(i, x). zNumber (p @ [Idx i]) (Some x)) (enumerate 0 xs)"
  have "?rs ! i = Inl [p @ [Idx i]]"
    using assms(2,3) by (simp add: nth_enumerate_eq zNumber_def)
  then obtain js where "collect ?rs = Inl js" "set [p @ [Idx i]] \<subseteq> set js"
    using collect_reports [of i ?rs] assms(2) by auto
  then show ?thesis using assms(1) by (simp add: zArray_def)
qed

lemma scheduleSchema_not_object:
  "\<not> (\<exists>sc. v = Some (JObj sc)) \<Longrightarrow> scheduleSchema p v = Inl [p]"
  by (auto simp: scheduleSchema_def split: option.splits json.splits)

lemma scheduleSchema_reports:
  assumes "zEnum [''weekly'', ''daily''] (p @ [Key ''type'']) (getProp (JObj sc) ''type'') = Inl a
         \<or> zArray zNumber (p @ [Key ''days'']) (getProp (JObj sc) ''days'') = Inl a
         \<or> zNumber (p @ [Key ''frequency'']) (getProp (JObj sc) ''frequency'') = Inl a"
  shows "\<exists>js. scheduleSchema p (Some (JObj sc)) = Inl js \<and> set a \<subseteq> set js"
  using assms by (auto simp: scheduleSchema_def Let_def issuesOf_def split: sum.splits)

lemma scheduleSchema_Inr:
  assumes "scheduleSchema p v = Inr s"
  shows "\<exists>sc ty xs. v = Some (JObj sc)
           \<and> getProp (JObj sc) ''type'' = Some (JStr ty) \<and> (ty = ''weekly'' \<or> ty = ''daily'')
           \<and> getProp (JObj sc) ''days'' = Some (JArr xs) \<and> (\<forall>x \<in> set xs. numberOf x \<noteq> None)
           \<and> Option.bind (getProp (JObj sc) ''frequency'') numberOf \<noteq> None"
proof -
  obtain sc where v: "v = Some (JObj sc)"
    using assms scheduleSchema_not_object [of v p] by fastforce
  have parts:
    "zEnum [''weekly'', ''daily''] (p @ [Key ''type'']) (getProp (JObj sc) ''type'') = Inr (s_type s)"
    "zArray zNumber (p @ [Key ''days'']) (getProp (JObj sc) ''days'') = Inr (s_days s)"
    "zNumber (p @ [Key ''frequency'']) (getProp (JObj sc) ''frequency'') = Inr (s_frequency s)"
    using assms unfolding v by (auto simp: scheduleSchema_def Let_def split: sum.splits)
  obtain xs where xs: "getProp (JObj sc) ''days'' = Some (JArr xs)" "map numberOf xs = map Some (s_days s)"
    using zArray_numbers_Inr [OF parts(2)] by auto
  have "numberOf x \<noteq> None" if "x \<in> set xs" for x
  proof -
    have "numberOf x \<in> set (map numberOf xs)" using that by simp
    then show ?thesis unfolding xs(2) by auto
  qed
  then show ?thesis
    using v parts(1,3) xs(1) by (auto simp: zEnum_Inr_iff zNumber_Inr_iff)
qed

lemma workoutSchema_not_object: "\<not> (\<exists>fs. body = JObj fs) \<Longrightarrow> workoutSchema body = Inl [[]]"
  by (cases body) (auto simp: workoutSchema_def)

lemma workoutSchema_reports:
  assumes "scheduleSchema [Key ''schedule''] (getProp (JObj fs) ''schedule'') = Inl a"
  shows "\<exists>is. workoutSchema (JObj fs) = Inl is \<and> set a \<subseteq> set is"
  using assms by (auto simp: workoutSchema_def Let_def issuesOf_def split: sum.splits)

lemma workoutSchema_Inr:
  assumes "workoutSchema body = Inr d"
  shows "scheduleSchema [Key ''schedule''] (getProp body ''schedule'') = Inr (wi_schedule d)"
proof -
  obtain fs where "body = JObj fs"
    using assms workoutSchema_not_object [of body] by fastforce
  then show ?thesis
    using assms by (auto simp: workoutSchema_def Let_def split: sum.splits)
qed

text \<open>
  Claim C8, as the code has it. A creation request is accepted only if its schedule
  is an object whose \<open>type\<close> is one of the literals \<open>weekly\<close> and \<open>daily\<close>, whose
  \<open>days\<close> is an array of numbers and whose \<open>frequency\<close> is a number; nothing more
  is asked of the days. A request that breaks one of these rules is answered 400 with
  a list of issues that has the path of the offending value (the body, \<open>schedule\<close>,
  \<open>schedule.type\<close>, \<open>schedule.days\<close>, \<open>schedule.days[i]\<close> or
  \<open>schedule.frequency\<close>), and the store is as before.
\<close>

theorem schedule_rules_checked_by_schema:
  assumes "createWorkout rt db uid body = (r, db')"
  shows "(r = Success view \<longrightarrow>
            (\<exists>sc ty xs. getProp body ''schedule'' = Some (JObj sc)
               \<and> getProp (JObj sc) ''type'' = Some (JStr ty) \<and> (ty = ''weekly'' \<or> ty = ''daily'')
               \<and> getProp (JObj sc) ''days'' = Some (JArr xs) \<and> (\<forall>x \<in> set xs. numberOf x \<noteq> None)
               \<and> Option.bind (getProp (JObj sc) ''frequency'') numberOf \<noteq> None))
       \<and> (\<not> (\<exists>fs. body = JObj fs) \<longrightarrow>
            (\<exists>is. r = Invalid is \<and> [] \<in> set is \<and> status r = 400 \<and> db' = db))
       \<and> ((\<exists>fs. body = JObj fs) \<and> \<not> (\<exists>sc. getProp body ''schedule'' = Some (JObj sc)) \<longrightarrow>
            (\<exists>is. r = Invalid is \<and> [Key ''schedule''] \<in> set is \<and> status r = 400 \<and> db' = db))
       \<and> ((\<exists>fs. body = JObj fs) \<and> getProp body ''schedule'' = Some (JObj sc)
            \<and> \<not> (\<exists>ty. getProp (JObj sc) ''type'' = Some (JStr ty) \<and> (ty = ''weekly'' \<or> ty = ''daily'')) \<longrightarrow>
            (\<exists>is. r = Invalid is \<and> [Key ''schedule'', Key ''type''] \<in> set is
               \<and> status r = 400 \<and> db' = db))
       \<and> ((\<exists>fs. body = JObj fs) \<and> getProp body ''schedule'' = Some (JObj sc)
            \<and> \<not> (\<exists>xs. getProp (JObj sc) ''days'' = Some (JArr xs)) \<longrightarrow>
            (\<exists>is. r = Invalid is \<and> [Key ''schedule'', Key ''days''] \<in> set is
               \<and> status r = 400 \<and> db' = db))
       \<and> ((\<exists>fs. body = JObj fs) \<and> getProp body ''schedule'' = Some (JObj sc)
            \<and> getProp (JObj sc) ''days'' = Some (JArr xs) \<and> i < length xs \<and> numberOf (xs ! i) = None \<longrightarrow>
            (\<exists>is. r = Invalid is \<and> [Key ''schedule'', Key ''days'', Idx i] \<in> set is
               \<and> status r = 400 \<and> db' = db))
       \<and> ((\<exists>fs. body = JObj fs) \<and> getProp body ''schedule'' = Some (JObj sc)
            \<and> Option.bind (getProp (JObj sc) ''frequency'') numberOf = None \<longrightarrow>
            (\<exists>is. r = Invalid is \<and> [Key ''schedule'', Key ''frequency''] \<in> set is
               \<and> status r = 400 \<and> db' = db))"
proof -
  have rejected: "\<exists>is. r = Invalid is \<and> q \<in> set is \<and> status r = 400 \<and> db' = db"
    if "workoutSchema body = Inl js" and "q \<in> set js" for js q
    using assms that by (auto simp: createWorkout_def)
  have in_schedule: "\<exists>is. r = Invalid is \<and> q \<in> set is \<and> status r = 400 \<and> db' = db"
    if b: "\<exists>fs. body = JObj fs"
      and s: "scheduleSchema [Key ''schedule''] (getProp body ''schedule'') = Inl a" and q: "q \<in> set a"
    for a q
  proof -
    from b obtain fs where fs: "body = JObj fs" ..
    obtain js where "workoutSchema body = Inl js" "set a \<subseteq> set js"
      using workoutSchema_reports [of fs a] s unfolding fs by auto
    then show ?thesis using rejected [of js q] q by auto
  qed
  have in_object: "\<exists>is. r = Invalid is \<and> q \<in> set is \<and> status r = 400 \<and> db' = db"
    if b: "\<exists>fs. body = JObj fs" and s: "getProp body ''schedule'' = Some (JObj sc)"
      and f: "zEnum [''weekly'', ''daily''] [Key ''schedule'', Key ''type''] (getProp (JObj sc) ''type'') = Inl a
         \<or> zArray zNumber [Key ''schedule'', Key ''days''] (getProp (JObj sc) ''days'') = Inl a
         \<or> zNumber [Key ''schedule'', Key ''frequency''] (getProp (JObj sc) ''frequency'') = Inl a"
      and q: "q \<in> set a"
    for a q
  proof -
    obtain js where "scheduleSchema [Key ''schedule''] (Some (JObj sc)) = Inl js" "set a \<subseteq> set js"
      using scheduleSchema_reports [of "[Key ''schedule'']" sc a] f by auto
    then show ?thesis using in_schedule [of js q] b s q by auto
  qed
  have accepted: "\<exists>sc ty xs. getProp body ''schedule'' = Some (JObj sc)
               \<and> getProp (JObj sc) ''type'' = Some (JStr ty) \<and> (ty = ''weekly'' \<or> ty = ''daily'')
               \<and> getProp (JObj sc) ''days'' = Some (JArr xs) \<and> (\<forall>x \<in> set xs. numberOf x \<noteq> None)
               \<and> Option.bind (getProp (JObj sc) ''frequency'') numberOf \<noteq> None"
    if "r = Success view"
  proof -
    have "\<exists>d. workoutSchema body = Inr d"
      using assms that by (auto simp: createWorkout_def split: sum.splits)
    then obtain d where "workoutSchema body = Inr d" ..
    then show ?thesis
      using scheduleSchema_Inr [OF workoutSchema_Inr] by blast
  qed
  have root: "\<exists>is. r = Invalid is \<and> [] \<in> set is \<and> status r = 400 \<and> db' = db"
    if "\<not> (\<exists>fs. body = JObj fs)"
    using rejected [OF workoutSchema_not_object [OF that]] by simp
  have schedule: "\<exists>is. r = Invalid is \<and> [Key ''schedule''] \<in> set is \<and> status r = 400 \<and> db' = db"
    if "\<exists>fs. body = JObj fs" and "\<not> (\<exists>sc. getProp body ''schedule'' = Some (JObj sc))"
    using in_schedule [OF that(1) scheduleSchema_not_object [OF that(2)]] by simp
  have type: "\<exists>is. r = Invalid is \<and> [Key ''schedule'', Key ''type''] \<in> set is \<and> status r = 400 \<and> db' = db"
    if "\<exists>fs. body = JObj fs" and "getProp body ''schedule'' = Some (JObj sc)"
      and "\<not> (\<exists>ty. getProp (JObj sc) ''type'' = Some (JStr ty) \<and> (ty = ''weekly'' \<or> ty = ''daily''))"
    using in_object [OF that(1,2), of "[[Key ''schedule'', Key ''type'']]"]
      zEnum_fails [of "getProp (JObj sc) ''type''" "[''weekly'', ''daily'']" "[Key ''schedule'', Key ''type'']"]
      that(3) by auto
  have days: "\<exists>is. r = Invalid is \<and> [Key ''schedule'', Key ''days''] \<in> set is \<and> status r = 400 \<and> db' = db"
    if "\<exists>fs. body = JObj fs" and "getProp body ''schedule'' = Some (JObj sc)"
      and "\<not> (\<exists>xs. getProp (JObj sc) ''days'' = Some (JArr xs))"
    using in_object [OF that(1,2), of "[[Key ''schedule'', Key ''days'']]"]
      zArray_fails [OF that(3), of zNumber "[Key ''schedule'', Key ''days'']"] by auto
  have day: "\<exists>is. r = Invalid is \<and> [Key ''schedule'', Key ''days'', Idx i] \<in> set is \<and> status r = 400 \<and> db' = db"
    if b: "\<exists>fs. body = JObj fs" and s: "getProp body ''schedule'' = Some (JObj sc)"
      and d: "getProp (JObj sc) ''days'' = Some (JArr xs)" "i < length xs" "numberOf (xs ! i) = None"
  proof -
    obtain js where "zArray zNumber [Key ''schedule'', Key ''days''] (getProp (JObj sc) ''days'') = Inl js"
      "[Key ''schedule'', Key ''days''] @ [Idx i] \<in> set js"
      using zArray_numbers_reports [OF d] by blast
    then show ?thesis
      using in_object [OF b s, of js "[Key ''schedule'', Key ''days'', Idx i]"] by simp
  qed
  have frequency: "\<exists>is. r = Invalid is \<and> [Key ''schedule'', Key ''frequency''] \<in> set is \<and> status r = 400 \<and> db' = db"
    if "\<exists>fs. body = JObj fs" and "getProp body ''schedule'' = Some (JObj sc)"
      and "Option.bind (getProp (JObj sc) ''frequency'') numberOf = None"
    using in_object [OF that(1,2), of "[[Key ''schedule'', Key ''frequency'']]"]
      zNumber_fails [OF that(3), of "[Key ''schedule'', Key ''frequency'']"] by auto
  show ?thesis
    using accepted root schedule type days day frequency by blast
qed

theorem schedule_rules_checked_by_schema_witness:
  "(\<exists>is. fst (createWorkout (fixedZone 0 0) emptyDb 1 monthlyBody) = Invalid is
       \<and> [Key ''schedule'', Key ''type''] \<in> set is
       \<and> status (fst (createWorkout (fixedZone 0 0) emptyDb 1 monthlyBody)) = 400
       \<and> snd (createWorkout (fixedZone 0 0) emptyDb 1 monthlyBody) = emptyDb)
   \<and> status (fst (createWorkout (fixedZone 0 0) emptyDb 1 oddWeeklyBody)) = 200
   \<and> (\<exists>sc xs. getProp oddWeeklyBody ''schedule'' = Some (JObj sc)
        \<and> getProp (JObj sc) ''type'' = Some (JStr ''weekly'')
        \<and> getProp (JObj sc) ''days'' = Some (JArr xs) \<and> list_all (\<lambda>x. numberOf x \<noteq> None) xs)"
proof -
  let ?sc = "[(''type'', JStr ''monthly''), (''days'', JArr [JNum 1]), (''frequency'', JNum 1)]"
  have b: "\<exists>fs. monthlyBody = JObj fs"
    by (simp add: monthlyBody_def)
  have s: "getProp monthlyBody ''schedule'' = Some (JObj ?sc)"
    by (simp add: monthlyBody_def getProp_def)
  have t: "\<not> (\<exists>ty. getProp (JObj ?sc) ''type'' = Some (JStr ty) \<and> (ty = ''weekly'' \<or> ty = ''daily''))"
    by (simp add: getProp_def)
  have rejected: "\<exists>is. fst (createWorkout (fixedZone 0 0) emptyDb 1 monthlyBody) = Invalid is
       \<and> [Key ''schedule'', Key ''type''] \<in> set is
       \<and> status (fst (createWorkout (fixedZone 0 0) emptyDb 1 monthlyBody)) = 400
       \<and> snd (createWorkout (fixedZone 0 0) emptyDb 1 monthlyBody) = emptyDb"
    using schedule_rules_checked_by_schema
      [OF prod.collapse [symmetric], of "fixedZone 0 0" emptyDb 1 monthlyBody _ ?sc]
      b s t by blast
  have ok: "status (fst (createWorkout (fixedZone 0 0) emptyDb 1 oddWeeklyBody)) = 200"
    by code_simp
  have "case fst (createWorkout (fixedZone 0 0) emptyDb 1 oddWeeklyBody) of
          Success v \<Rightarrow> True | Invalid is \<Rightarrow> False | Failure c m \<Rightarrow> False"
    by code_simp
  then obtain view where v: "fst (createWorkout (fixedZone 0 0) emptyDb 1 oddWeeklyBody) = Success view"
    by (cases "fst (createWorkout (fixedZone 0 0) emptyDb 1 oddWeeklyBody)") auto
  have "\<exists>sc ty xs. getProp oddWeeklyBody ''schedule'' = Some (JObj sc)
        \<and> getProp (JObj sc) ''type'' = Some (JStr ty) \<and> (ty = ''weekly'' \<or> ty = ''daily'')
        \<and> getProp (JObj sc) ''days'' = Some (JArr xs) \<and> (\<forall>x \<in> set xs. numberOf x \<noteq> None)
        \<and> Option.bind (getProp (JObj sc) ''frequency'') numberOf \<noteq> None"
    using schedule_rules_checked_by_schema
      [OF prod.collapse [symmetric], of "fixedZone 0 0" emptyDb 1 oddWeeklyBody view] v by blast
  then have accepted: "\<exists>sc xs. getProp oddWeeklyBody ''schedule'' = Some (JObj sc)
        \<and> getProp (JObj sc) ''type'' = Some (JStr ''weekly'')
        \<and> getProp (JObj sc) ''days'' = Some (JArr xs) \<and> list_all (\<lambda>x. numberOf x \<noteq> None) xs"
    by (auto simp: oddWeeklyBody_def getProp_def list_all_iff)
  show ?thesis
    using rejected ok accepted by blast
qed

text \<open>
  Claim C8, as stated: a weekly schedule is accepted only with days that are not
  empty, in the range 0 to 6 and without duplicates. The schema accepts a weekly
  schedule on the days 9, 9 and -1, and one on no day; both workouts are created.
\<close>

theorem weekly_days_unchecked_on_creation:
  "status (fst (createWorkout (fixedZone 0 0) emptyDb 1 oddWeeklyBody)) = 200
   \<and> map w_scheduleType (db_workouts (snd (createWorkout (fixedZone 0 0) emptyDb 1 oddWeeklyBody))) = [''weekly'']
   \<and> map w_scheduleDays (db_workouts (snd (createWorkout (fixedZone 0 0) emptyDb 1 oddWeeklyBody))) = [''9,9,-1'']
   \<and> status (fst (createWorkout (fixedZone 0 0) emptyDb 1 emptyWeeklyBody)) = 200
   \<and> map w_scheduleType (db_workouts (snd (createWorkout (fixedZone 0 0) emptyDb 1 emptyWeeklyBody))) = [''weekly'']
   \<and> map w_scheduleDays (db_workouts (snd (createWorkout (fixedZone 0 0) emptyDb 1 emptyWeeklyBody))) = ['''']"
  by code_simp

end
